theory Spec2Isabelle
  imports Complex_Main
begin

section \<open>Benchmarking Monte Carlo estimates against Fourier-based prices\<close>

text \<open>
  The development follows the notebook \<^verbatim>\<open>08_dx_fourier_pricing.ipynb\<close>: the market
  environments it builds, the grid of maturities and strikes, the two hand-written loops
  of the geometric Brownian motion benchmark and the function
  \<^verbatim>\<open>valuation_benchmarking\<close> used for the other three models.

  Python floats are modelled as \<^typ>\<open>real\<close>, so rounding of the binary representation
  is not part of the model. A Python exception is a value of type \<open>error\<close>; a run returns
  the exception it ended with, if any, together with the state it left behind.
\<close>

subsection \<open>Dates\<close>

text \<open>
  \<^verbatim>\<open>dt.datetime(y, m, d)\<close>; every date of the notebook is at midnight, so the time of
  day is left out. The day count is the one of Python's \<^verbatim>\<open>date.toordinal\<close>, and
  \<^verbatim>\<open>(a - b).days\<close> is the difference of the ordinals. A month is between 1 and 12, as
  the constructor of \<^verbatim>\<open>datetime\<close> checks; entry 0 of the table is never read.
\<close>

datatype datetime = Datetime (year: nat) (month: nat) (day: nat)

definition is_leap :: "nat \<Rightarrow> bool" where
  "is_leap y = (y mod 4 = 0 \<and> (y mod 100 \<noteq> 0 \<or> y mod 400 = 0))"

definition days_in_month :: "nat \<Rightarrow> nat \<Rightarrow> nat" where
  "days_in_month y m =
     (if m = 2 then (if is_leap y then 29 else 28)
      else if m = 4 \<or> m = 6 \<or> m = 9 \<or> m = 11 then 30 else 31)"

definition days_before_year :: "nat \<Rightarrow> nat" where
  "days_before_year y = (y - 1) * 365 + (y - 1) div 4 - (y - 1) div 100 + (y - 1) div 400"

definition DAYS_BEFORE_MONTH :: "nat list" where
  "DAYS_BEFORE_MONTH = [0, 0, 31, 59, 90, 120, 151, 181, 212, 243, 273, 304, 334]"

definition days_before_month :: "nat \<Rightarrow> nat \<Rightarrow> nat" where
  "days_before_month y m = DAYS_BEFORE_MONTH ! m + (if m > 2 \<and> is_leap y then 1 else 0)"

definition toordinal :: "datetime \<Rightarrow> nat" where
  "toordinal d = days_before_year (year d) + days_before_month (year d) (month d) + day d"

definition days_between :: "datetime \<Rightarrow> datetime \<Rightarrow> int" where
  "days_between a b = int (toordinal a) - int (toordinal b)"

subsection \<open>The grid of maturities and strikes\<close>

text \<open>
  \<^verbatim>\<open>pd.date_range(start, freq, periods)\<close> with a month-end frequency: the start is rolled
  forward to the end of its month, and every further date is the end of the month
  \<open>n\<close> months later.
\<close>

datatype offset = MonthEnd nat

definition rollforward :: "datetime \<Rightarrow> datetime" where
  "rollforward d = Datetime (year d) (month d) (days_in_month (year d) (month d))"

definition add_months :: "nat \<Rightarrow> datetime \<Rightarrow> datetime" where
  "add_months n d =
     (let k = year d * 12 + (month d - 1) + n;
          y = k div 12;
          m = k mod 12 + 1
      in Datetime y m (days_in_month y m))"

fun date_range_from :: "datetime \<Rightarrow> nat \<Rightarrow> nat \<Rightarrow> datetime list" where
  "date_range_from d n 0 = []"
| "date_range_from d n (Suc p) = d # date_range_from (add_months n d) n p"

fun date_range :: "datetime \<Rightarrow> offset \<Rightarrow> nat \<Rightarrow> datetime list" where
  "date_range start (MonthEnd n) periods = date_range_from (rollforward start) n periods"

text \<open>\<^verbatim>\<open>np.linspace(start, stop, num)\<close>: \<open>num\<close> equally spaced points, both ends included.\<close>

definition linspace :: "real \<Rightarrow> real \<Rightarrow> nat \<Rightarrow> real list" where
  "linspace a b num = map (\<lambda>i. a + real i * ((b - a) / real (num - 1))) [0..<num]"

text \<open>
  The parameters "used throughout". The frequency \<^verbatim>\<open>'2m'\<close> is two month ends; the
  notebook's \<^verbatim>\<open>end\<close> is written \<open>end_pct\<close> here.
\<close>

definition freq :: offset where "freq = MonthEnd 2"
definition periods :: nat where "periods = 3"
definition strikes :: nat where "strikes = 5"
definition initial_value :: real where "initial_value = 100"
definition start :: real where "start = 0.8"
definition end_pct :: real where "end_pct = 1.2"
definition start_date :: datetime where "start_date = Datetime 2015 3 1"

definition maturities :: "datetime list" where
  "maturities = date_range start_date freq periods"

definition strike_grid :: "real list" where
  "strike_grid = map (\<lambda>x. x * initial_value) (linspace start end_pct strikes)"

subsection \<open>Market environments\<close>

text \<open>
  Modelled from the spec: the class \<^verbatim>\<open>dx.market_environment\<close> is used by the notebook but
  defined elsewhere in the library. Following the specification ("named scalar/curve
  parameters keyed by string identifiers") an environment has a name, a pricing date, and
  dictionaries of constants and curves; \<^verbatim>\<open>add_constant\<close> stores a value under a key and
  replaces the value the key had, \<^verbatim>\<open>add_environment\<close> copies every entry of another
  environment.
\<close>

datatype const_value = Number real | Date datetime | Text string

datatype curve = Constant_short_rate string real

record market_environment =
  env_name :: string
  pricing_date :: datetime
  constants :: "string \<rightharpoonup> const_value"
  curves :: "string \<rightharpoonup> curve"

definition new_market_environment :: "string \<Rightarrow> datetime \<Rightarrow> market_environment" where
  "new_market_environment n d =
     \<lparr>env_name = n, pricing_date = d, constants = Map.empty, curves = Map.empty\<rparr>"

definition add_constant :: "string \<Rightarrow> const_value \<Rightarrow> market_environment \<Rightarrow> market_environment" where
  "add_constant key c env = env\<lparr>constants := (constants env)(key \<mapsto> c)\<rparr>"

definition add_curve :: "string \<Rightarrow> curve \<Rightarrow> market_environment \<Rightarrow> market_environment" where
  "add_curve key c env = env\<lparr>curves := (curves env)(key \<mapsto> c)\<rparr>"

definition add_environment :: "market_environment \<Rightarrow> market_environment \<Rightarrow> market_environment" where
  "add_environment other env =
     env\<lparr>constants := constants env ++ constants other, curves := curves env ++ curves other\<rparr>"

text \<open>The environments of the notebook, built in the order of its cells.\<close>

definition short_rate_r :: curve where
  "short_rate_r = Constant_short_rate ''r'' 0.01"

definition val_env :: market_environment where
  "val_env =
     (add_constant ''final_date'' (Date (Datetime 2015 12 31))
      (add_constant ''starting_date'' (Date (Datetime 2015 1 1))
      (add_curve ''discount_curve'' short_rate_r
      (add_constant ''frequency'' (Text ''D'')
      (add_constant ''paths'' (Number 55000)
      (new_market_environment ''val_env'' (Datetime 2015 1 1)))))))"

definition me_risk_factors :: market_environment where
  "me_risk_factors =
     (add_environment val_env
      (add_constant ''vol_vol'' (Number 0.3)
      (add_constant ''theta'' (Number 0.02)
      (add_constant ''kappa'' (Number 5.0)
      (add_constant ''rho'' (Number (- 0.5))
      (add_constant ''delta'' (Number 0.2)
      (add_constant ''mu'' (Number (- 0.6))
      (add_constant ''lambda'' (Number 0.4)
      (add_constant ''currency'' (Text ''EUR'')
      (add_constant ''final_date'' (Date (Datetime 2015 12 31))
      (add_constant ''volatility'' (Number 0.2)
      (add_constant ''initial_value'' (Number 100)
      (new_market_environment ''me'' (Datetime 2015 1 1))))))))))))))"

definition me_option_init :: market_environment where
  "me_option_init =
     (add_environment val_env
      (add_environment me_risk_factors
      (add_constant ''currency'' (Text ''EUR'')
      (add_constant ''strike'' (Number 100)
      (add_constant ''maturity'' (Date (Datetime 2015 12 31))
      (new_market_environment ''option'' (Datetime 2015 1 1)))))))"

subsection \<open>Exceptions and printed lines\<close>

text \<open>
  \<open>Raised\<close> is an exception coming out of a call into the library (the simulation engine
  or a pricing function).
\<close>

datatype error = Raised string

text \<open>
  A printed line is kept as the two operands of Python's \<^verbatim>\<open>%\<close>: the format string and
  the tuple of arguments. A float argument is a real number or one of the three values
  that are not numbers.
\<close>

datatype arg = Str string | Float real | PosInf | NegInf | NaN

text \<open>
  The expression \<^verbatim>\<open>x / y * c\<close>. The estimates and prices are numpy floats (the strikes come
  from \<^verbatim>\<open>np.linspace\<close>), for which a division by zero does not raise: it gives \<^verbatim>\<open>inf\<close>,
  \<^verbatim>\<open>-inf\<close> or \<^verbatim>\<open>nan\<close>, and so does the product with \<open>c\<close>.
\<close>

definition divide_times :: "real \<Rightarrow> real \<Rightarrow> real \<Rightarrow> arg" where
  "divide_times x y c =
     (if y = 0 then (if 0 < x * c then PosInf else if x * c < 0 then NegInf else NaN)
      else Float (x / y * c))"

type_synonym line = "string \<times> arg list"

definition header :: line where
  "header = (''%4s  | %7s | %7s | %7s | %7s | %7s'',
             [Str ''T'', Str ''strike'', Str ''mcs'', Str ''fou'', Str ''dif'', Str ''rel''])"

definition row_format_gbm :: string where
  "row_format_gbm = ''%4.3f | %7.3f | %7.4f | %7.4f | %7.4f | %7.2f ''"

definition row_format :: string where
  "row_format = ''%4.3f | %7.3f | %7.4f | %7.4f | %7.4f | %7.3f ''"

text \<open>
  The conversions of a format string, in order: minimum width, precision (if given) and
  conversion type of every \<^verbatim>\<open>%w.pt\<close>.
\<close>

datatype scan = Literal | Width nat | Precision nat nat

definition is_digit :: "char \<Rightarrow> bool" where
  "is_digit c = (c \<in> set ''0123456789'')"

definition digit :: "char \<Rightarrow> nat" where
  "digit c = of_char c - 48"

fun conversions_from :: "scan \<Rightarrow> string \<Rightarrow> (nat \<times> nat option \<times> char) list" where
  "conversions_from st [] = []"
| "conversions_from Literal (c # cs) =
     (if c = CHR ''%'' then conversions_from (Width 0) cs else conversions_from Literal cs)"
| "conversions_from (Width w) (c # cs) =
     (if is_digit c then conversions_from (Width (10 * w + digit c)) cs
      else if c = CHR ''.'' then conversions_from (Precision w 0) cs
      else (w, None, c) # conversions_from Literal cs)"
| "conversions_from (Precision w p) (c # cs) =
     (if is_digit c then conversions_from (Precision w (10 * p + digit c)) cs
      else (w, Some p, c) # conversions_from Literal cs)"

definition conversions :: "string \<Rightarrow> (nat \<times> nat option \<times> char) list" where
  "conversions fmt = conversions_from Literal fmt"

subsection \<open>The objects the benchmarks call into\<close>

text \<open>
  A Monte Carlo valuation object (\<^verbatim>\<open>dx.valuation_mcs_european_single\<close>) is used through
  three calls only: \<^verbatim>\<open>update(maturity=...)\<close>, \<^verbatim>\<open>update(strike=...)\<close> and
  \<^verbatim>\<open>present_value()\<close>. Its class is not part of the notebook, so the three methods are
  parameters over an arbitrary object state \<open>'v\<close>. The object was constructed with a
  reference to \<^verbatim>\<open>me_option\<close>; \<open>present_value\<close> therefore receives the content that shared
  environment has at the time of the call, may change the object (random numbers, cached
  paths) and may raise.
\<close>

record 'v valuation_object =
  update_maturity :: "datetime \<Rightarrow> 'v \<Rightarrow> 'v"
  update_strike :: "real \<Rightarrow> 'v \<Rightarrow> 'v"
  present_value :: "market_environment \<Rightarrow> 'v \<Rightarrow> (error + real) \<times> 'v"

text \<open>
  \<^verbatim>\<open>dx.BSM_european_option('bsm_opt', me_option)\<close>: the loops assign its attributes
  \<^verbatim>\<open>maturity\<close> and \<^verbatim>\<open>strike\<close>; everything else it holds comes from the environment it was
  constructed with. Its methods \<^verbatim>\<open>put_value\<close> and \<^verbatim>\<open>call_value\<close> are parameters of the
  loops below.
\<close>

record bsm_european_option =
  bsm_maturity :: datetime
  bsm_strike :: real
  bsm_mar_env :: market_environment

text \<open>The state a benchmark works on: the two shared objects of the notebook, the
  valuation object at hand and what has been printed.\<close>

record 'v world =
  me_option :: market_environment
  bsm_option :: bsm_european_option
  vobj :: 'v
  stdout :: "line list"

definition print :: "line \<Rightarrow> 'v world \<Rightarrow> 'v world" where
  "print l w = w\<lparr>stdout := stdout w @ [l]\<rparr>"

text \<open>A \<^verbatim>\<open>for\<close> loop whose body may raise: the first exception ends the loop.\<close>

fun for_each :: "'a list \<Rightarrow> ('a \<Rightarrow> 's \<Rightarrow> error option \<times> 's) \<Rightarrow> 's \<Rightarrow> error option \<times> 's" where
  "for_each [] body s = (None, s)"
| "for_each (x # xs) body s =
     (case body x s of
        (None, s') \<Rightarrow> for_each xs body s'
      | (Some e, s') \<Rightarrow> (Some e, s'))"

subsection \<open>The function \<^verbatim>\<open>valuation_benchmarking\<close>\<close>

text \<open>The body of the inner loop over the strikes, for one maturity.\<close>

definition valuation_benchmarking_strike ::
  "'v valuation_object \<Rightarrow> (market_environment \<Rightarrow> error + real) \<Rightarrow> datetime \<Rightarrow> real \<Rightarrow>
   'v world \<Rightarrow> error option \<times> 'v world" where
  "valuation_benchmarking_strike valuation_object fourier_function maturity strike w =
     (let T = real_of_int (days_between maturity (pricing_date (me_option w))) / 365;
          w1 = w\<lparr>vobj := update_strike valuation_object strike (vobj w)\<rparr>;
          (res, v) = present_value valuation_object (me_option w1) (vobj w1);
          w2 = w1\<lparr>vobj := v\<rparr>
      in case res of
           Inl e \<Rightarrow> (Some e, w2)
         | Inr mcs \<Rightarrow>
             (let w3 = w2\<lparr>me_option := add_constant ''strike'' (Number strike) (me_option w2)\<rparr>
              in case fourier_function (me_option w3) of
                   Inl e \<Rightarrow> (Some e, w3)
                 | Inr fou \<Rightarrow>
                     (None, print (row_format,
                              [Float T, Float strike, Float mcs, Float fou,
                               Float (mcs - fou), divide_times (mcs - fou) fou 100]) w3)))"

text \<open>The body of the outer loop over the maturities.\<close>

definition valuation_benchmarking_maturity ::
  "'v valuation_object \<Rightarrow> (market_environment \<Rightarrow> error + real) \<Rightarrow> datetime \<Rightarrow>
   'v world \<Rightarrow> error option \<times> 'v world" where
  "valuation_benchmarking_maturity valuation_object fourier_function maturity w =
     (let w1 = w\<lparr>vobj := update_maturity valuation_object maturity (vobj w)\<rparr>;
          w2 = w1\<lparr>me_option := add_constant ''maturity'' (Date maturity) (me_option w1)\<rparr>
      in for_each strike_grid
           (valuation_benchmarking_strike valuation_object fourier_function maturity) w2)"

definition valuation_benchmarking ::
  "'v valuation_object \<Rightarrow> (market_environment \<Rightarrow> error + real) \<Rightarrow>
   'v world \<Rightarrow> error option \<times> 'v world" where
  "valuation_benchmarking valuation_object fourier_function w =
     for_each maturities
       (valuation_benchmarking_maturity valuation_object fourier_function) (print header w)"

subsection \<open>The two loops of the geometric Brownian motion benchmark\<close>

text \<open>European put: the cell that prints the first table.\<close>

definition gbm_put_strike ::
  "'v valuation_object \<Rightarrow> (bsm_european_option \<Rightarrow> error + real) \<Rightarrow> datetime \<Rightarrow> real \<Rightarrow>
   'v world \<Rightarrow> error option \<times> 'v world" where
  "gbm_put_strike euro_put_gbm put_value maturity strike w =
     (let T = real_of_int (days_between maturity (pricing_date (me_option w))) / 365;
          w1 = w\<lparr>vobj := update_strike euro_put_gbm strike (vobj w)\<rparr>;
          (res, v) = present_value euro_put_gbm (me_option w1) (vobj w1);
          w2 = w1\<lparr>vobj := v\<rparr>
      in case res of
           Inl e \<Rightarrow> (Some e, w2)
         | Inr mcs \<Rightarrow>
             (let w3 = w2\<lparr>bsm_option := (bsm_option w2)\<lparr>bsm_strike := strike\<rparr>\<rparr>
              in case put_value (bsm_option w3) of
                   Inl e \<Rightarrow> (Some e, w3)
                 | Inr ana \<Rightarrow>
                     (None, print (row_format_gbm,
                              [Float T, Float strike, Float mcs, Float ana,
                               Float (mcs - ana), divide_times (mcs - ana) ana 100]) w3)))"

definition gbm_put_maturity ::
  "'v valuation_object \<Rightarrow> (bsm_european_option \<Rightarrow> error + real) \<Rightarrow> datetime \<Rightarrow>
   'v world \<Rightarrow> error option \<times> 'v world" where
  "gbm_put_maturity euro_put_gbm put_value maturity w =
     (let w1 = w\<lparr>bsm_option := (bsm_option w)\<lparr>bsm_maturity := maturity\<rparr>\<rparr>;
          w2 = w1\<lparr>vobj := update_maturity euro_put_gbm maturity (vobj w1)\<rparr>
      in for_each strike_grid (gbm_put_strike euro_put_gbm put_value maturity) w2)"

definition gbm_put_benchmark ::
  "'v valuation_object \<Rightarrow> (bsm_european_option \<Rightarrow> error + real) \<Rightarrow>
   'v world \<Rightarrow> error option \<times> 'v world" where
  "gbm_put_benchmark euro_put_gbm put_value w =
     for_each maturities (gbm_put_maturity euro_put_gbm put_value) (print header w)"

text \<open>European call: here the maturity of \<^verbatim>\<open>bsm_option\<close> is assigned in the inner loop.\<close>

definition gbm_call_strike ::
  "'v valuation_object \<Rightarrow> (bsm_european_option \<Rightarrow> error + real) \<Rightarrow> datetime \<Rightarrow> real \<Rightarrow>
   'v world \<Rightarrow> error option \<times> 'v world" where
  "gbm_call_strike euro_call_gbm call_value maturity strike w =
     (let T = real_of_int (days_between maturity (pricing_date (me_option w))) / 365;
          w1 = w\<lparr>vobj := update_strike euro_call_gbm strike (vobj w)\<rparr>;
          (res, v) = present_value euro_call_gbm (me_option w1) (vobj w1);
          w2 = w1\<lparr>vobj := v\<rparr>
      in case res of
           Inl e \<Rightarrow> (Some e, w2)
         | Inr mcs \<Rightarrow>
             (let w3 = w2\<lparr>bsm_option := (bsm_option w2)\<lparr>bsm_strike := strike\<rparr>\<rparr>;
                  w4 = w3\<lparr>bsm_option := (bsm_option w3)\<lparr>bsm_maturity := maturity\<rparr>\<rparr>
              in case call_value (bsm_option w4) of
                   Inl e \<Rightarrow> (Some e, w4)
                 | Inr ana \<Rightarrow>
                     (None, print (row_format_gbm,
                              [Float T, Float strike, Float mcs, Float ana,
                               Float (mcs - ana), divide_times (mcs - ana) ana 100]) w4)))"

definition gbm_call_maturity ::
  "'v valuation_object \<Rightarrow> (bsm_european_option \<Rightarrow> error + real) \<Rightarrow> datetime \<Rightarrow>
   'v world \<Rightarrow> error option \<times> 'v world" where
  "gbm_call_maturity euro_call_gbm call_value maturity w =
     (let w1 = w\<lparr>vobj := update_maturity euro_call_gbm maturity (vobj w)\<rparr>
      in for_each strike_grid (gbm_call_strike euro_call_gbm call_value maturity) w1)"

definition gbm_call_benchmark ::
  "'v valuation_object \<Rightarrow> (bsm_european_option \<Rightarrow> error + real) \<Rightarrow>
   'v world \<Rightarrow> error option \<times> 'v world" where
  "gbm_call_benchmark euro_call_gbm call_value w =
     for_each maturities (gbm_call_maturity euro_call_gbm call_value) (print header w)"

subsection \<open>Rows of the tables and invariants of the loops\<close>

text \<open>
  \<open>fourier_row\<close> describes the line \<^verbatim>\<open>valuation_benchmarking\<close> prints for the maturity and
  strike of one grid point, started with the environment \<open>env\<close>: the Monte Carlo estimate is
  a value \<open>present_value\<close> returned right after the strike was updated, the reference price
  is the value of the pricing function on the environment in which the maturity and the
  strike of the grid point have been stored. \<open>gbm_row\<close> is the same for the two loops of the
  geometric Brownian motion benchmark, where the reference price comes from the method of
  \<^verbatim>\<open>bsm_option\<close> after its two attributes have been assigned. Both leave open in which
  state of the valuation object the estimate was computed: that is fixed by the relations
  of the next subsection, which give the state before and after every grid point. The
  remaining predicates are the invariants of the loops.
\<close>

definition fourier_row ::
  "'v valuation_object \<Rightarrow> (market_environment \<Rightarrow> error + real) \<Rightarrow> market_environment \<Rightarrow>
   datetime \<Rightarrow> real \<Rightarrow> line \<Rightarrow> bool" where
  "fourier_row valuation_object fourier_function env maturity strike l =
     (\<exists>mcs fou.
        (\<exists>me v. fst (present_value valuation_object me (update_strike valuation_object strike v))
                 = Inr mcs) \<and>
        fourier_function (add_constant ''strike'' (Number strike)
                           (add_constant ''maturity'' (Date maturity) env)) = Inr fou \<and>
        l = (row_format,
             [Float (real_of_int (days_between maturity (pricing_date env)) / 365),
              Float strike, Float mcs, Float fou, Float (mcs - fou),
              divide_times (mcs - fou) fou 100]))"

definition vb_inv :: "market_environment \<Rightarrow> bsm_european_option \<Rightarrow> datetime \<Rightarrow> 'v world \<Rightarrow> bool" where
  "vb_inv E B m s \<longleftrightarrow>
     bsm_option s = B \<and>
     (me_option s = add_constant ''maturity'' (Date m) E \<or>
      (\<exists>k. me_option s = add_constant ''strike'' (Number k) (add_constant ''maturity'' (Date m) E)))"

definition vb_outer_inv :: "market_environment \<Rightarrow> bsm_european_option \<Rightarrow> 'v world \<Rightarrow> bool" where
  "vb_outer_inv E B s \<longleftrightarrow>
     bsm_option s = B \<and>
     (me_option s = E \<or>
      (\<exists>m k. me_option s =
               add_constant ''strike'' (Number k) (add_constant ''maturity'' (Date m) E)))"

definition gbm_row ::
  "'v valuation_object \<Rightarrow> (bsm_european_option \<Rightarrow> error + real) \<Rightarrow> bsm_european_option \<Rightarrow>
   market_environment \<Rightarrow> datetime \<Rightarrow> real \<Rightarrow> line \<Rightarrow> bool" where
  "gbm_row valuation_object bsm_value bsm env maturity strike l =
     (\<exists>mcs ana.
        (\<exists>v. fst (present_value valuation_object env (update_strike valuation_object strike v))
              = Inr mcs) \<and>
        bsm_value (bsm\<lparr>bsm_maturity := maturity, bsm_strike := strike\<rparr>) = Inr ana \<and>
        l = (row_format_gbm,
             [Float (real_of_int (days_between maturity (pricing_date env)) / 365),
              Float strike, Float mcs, Float ana, Float (mcs - ana),
              divide_times (mcs - ana) ana 100]))"

definition gbm_inv :: "market_environment \<Rightarrow> bsm_european_option \<Rightarrow> 'v world \<Rightarrow> bool" where
  "gbm_inv E B s \<longleftrightarrow>
     me_option s = E \<and> (\<exists>m k. bsm_option s = B\<lparr>bsm_maturity := m, bsm_strike := k\<rparr>)"

definition gbm_put_inv ::
  "market_environment \<Rightarrow> bsm_european_option \<Rightarrow> datetime \<Rightarrow> 'v world \<Rightarrow> bool" where
  "gbm_put_inv E B m s \<longleftrightarrow>
     me_option s = E \<and> (\<exists>k. bsm_option s = B\<lparr>bsm_maturity := m, bsm_strike := k\<rparr>)"

subsection \<open>What a run does, as a relation between states\<close>

text \<open>
  The relations of this section describe the loops without executing them; the theorems
  below show that the loops do exactly this. \<open>chain step xs s s'\<close> holds when the steps for
  the elements of \<open>xs\<close>, taken in order, lead from \<open>s\<close> to \<open>s'\<close>.
\<close>

fun chain :: "('a \<Rightarrow> 's \<Rightarrow> 's \<Rightarrow> bool) \<Rightarrow> 'a list \<Rightarrow> 's \<Rightarrow> 's \<Rightarrow> bool" where
  "chain step [] s s' = (s' = s)"
| "chain step (x # xs) s s' = (\<exists>t. step x s t \<and> chain step xs t s')"

text \<open>
  A run over the grid that returns: for each maturity in turn the state is prepared by
  \<open>enter\<close>, then the points of all strikes succeed one after the other.
\<close>

definition grid_run ::
  "(datetime \<Rightarrow> 's \<Rightarrow> 's) \<Rightarrow> (datetime \<Rightarrow> real \<Rightarrow> 's \<Rightarrow> 's \<Rightarrow> bool) \<Rightarrow> 's \<Rightarrow> 's \<Rightarrow> bool" where
  "grid_run enter point s s' =
     chain (\<lambda>maturity s t. chain (point maturity) strike_grid (enter maturity s) t)
       maturities s s'"

text \<open>
  A run over the grid that ends with the exception \<open>e\<close>: the first \<open>a\<close> maturities are
  completed, the maturity number \<open>a\<close> is entered and its first \<open>b\<close> strikes succeed, and at
  the strike number \<open>b\<close> the exception is raised, leaving the state \<open>s'\<close>.
\<close>

definition grid_run_raises ::
  "(datetime \<Rightarrow> 's \<Rightarrow> 's) \<Rightarrow> (datetime \<Rightarrow> real \<Rightarrow> 's \<Rightarrow> 's \<Rightarrow> bool) \<Rightarrow>
   (datetime \<Rightarrow> real \<Rightarrow> 's \<Rightarrow> error \<Rightarrow> 's \<Rightarrow> bool) \<Rightarrow> 's \<Rightarrow> error \<Rightarrow> 's \<Rightarrow> bool" where
  "grid_run_raises enter point raises s e s' =
     (\<exists>a b t u. a < length maturities \<and> b < length strike_grid \<and>
        chain (\<lambda>maturity s t. chain (point maturity) strike_grid (enter maturity s) t)
          (take a maturities) s t \<and>
        chain (point (maturities ! a)) (take b strike_grid) (enter (maturities ! a) t) u \<and>
        raises (maturities ! a) (strike_grid ! b) u e s')"

text \<open>
  \<^verbatim>\<open>valuation_benchmarking\<close>. Entering a maturity updates the valuation object and stores
  the maturity in \<^verbatim>\<open>me_option\<close>. A grid point succeeds when \<open>present_value\<close>, called on the
  object after the strike was updated and with the environment as it is then, returns an
  estimate \<open>mcs\<close>, and the pricing function, called on the environment in which the strike
  has been stored, returns a price \<open>fou\<close>; the row of the two is printed. It raises when
  the first call raises, or the first returns and the second raises.
\<close>

definition fourier_enter :: "'v valuation_object \<Rightarrow> datetime \<Rightarrow> 'v world \<Rightarrow> 'v world" where
  "fourier_enter valuation_object maturity s =
     s\<lparr>vobj := update_maturity valuation_object maturity (vobj s),
       me_option := add_constant ''maturity'' (Date maturity) (me_option s)\<rparr>"

definition fourier_point ::
  "'v valuation_object \<Rightarrow> (market_environment \<Rightarrow> error + real) \<Rightarrow> datetime \<Rightarrow> real \<Rightarrow>
   'v world \<Rightarrow> 'v world \<Rightarrow> bool" where
  "fourier_point valuation_object fourier_function maturity strike s s' =
     (\<exists>mcs fou v.
        present_value valuation_object (me_option s)
          (update_strike valuation_object strike (vobj s)) = (Inr mcs, v) \<and>
        fourier_function (add_constant ''strike'' (Number strike) (me_option s)) = Inr fou \<and>
        s' = s\<lparr>vobj := v,
               me_option := add_constant ''strike'' (Number strike) (me_option s),
               stdout := stdout s @
                 [(row_format,
                   [Float (real_of_int (days_between maturity (pricing_date (me_option s))) / 365),
                    Float strike, Float mcs, Float fou, Float (mcs - fou),
                    divide_times (mcs - fou) fou 100])]\<rparr>)"

definition fourier_raises ::
  "'v valuation_object \<Rightarrow> (market_environment \<Rightarrow> error + real) \<Rightarrow> datetime \<Rightarrow> real \<Rightarrow>
   'v world \<Rightarrow> error \<Rightarrow> 'v world \<Rightarrow> bool" where
  "fourier_raises valuation_object fourier_function maturity strike s e s' =
     ((\<exists>v. present_value valuation_object (me_option s)
             (update_strike valuation_object strike (vobj s)) = (Inl e, v) \<and>
           s' = s\<lparr>vobj := v\<rparr>) \<or>
      (\<exists>mcs v. present_value valuation_object (me_option s)
                 (update_strike valuation_object strike (vobj s)) = (Inr mcs, v) \<and>
           fourier_function (add_constant ''strike'' (Number strike) (me_option s)) = Inl e \<and>
           s' = s\<lparr>vobj := v,
                  me_option := add_constant ''strike'' (Number strike) (me_option s)\<rparr>))"

text \<open>
  The loop of the European put under geometric Brownian motion. Entering a maturity
  assigns it to \<^verbatim>\<open>bsm_option\<close> and updates the valuation object; at a grid point the strike
  is assigned to \<^verbatim>\<open>bsm_option\<close> and the reference price is what the pricing method returns for the
  object with both attributes assigned.
\<close>

definition gbm_put_enter :: "'v valuation_object \<Rightarrow> datetime \<Rightarrow> 'v world \<Rightarrow> 'v world" where
  "gbm_put_enter valuation_object maturity s =
     s\<lparr>bsm_option := (bsm_option s)\<lparr>bsm_maturity := maturity\<rparr>,
       vobj := update_maturity valuation_object maturity (vobj s)\<rparr>"

definition gbm_put_point ::
  "'v valuation_object \<Rightarrow> (bsm_european_option \<Rightarrow> error + real) \<Rightarrow> datetime \<Rightarrow> real \<Rightarrow>
   'v world \<Rightarrow> 'v world \<Rightarrow> bool" where
  "gbm_put_point valuation_object bsm_value maturity strike s s' =
     (\<exists>mcs ana v.
        present_value valuation_object (me_option s)
          (update_strike valuation_object strike (vobj s)) = (Inr mcs, v) \<and>
        bsm_value ((bsm_option s)\<lparr>bsm_strike := strike\<rparr>) = Inr ana \<and>
        s' = s\<lparr>vobj := v,
               bsm_option := (bsm_option s)\<lparr>bsm_strike := strike\<rparr>,
               stdout := stdout s @
                 [(row_format_gbm,
                   [Float (real_of_int (days_between maturity (pricing_date (me_option s))) / 365),
                    Float strike, Float mcs, Float ana, Float (mcs - ana),
                    divide_times (mcs - ana) ana 100])]\<rparr>)"

definition gbm_put_raises ::
  "'v valuation_object \<Rightarrow> (bsm_european_option \<Rightarrow> error + real) \<Rightarrow> datetime \<Rightarrow> real \<Rightarrow>
   'v world \<Rightarrow> error \<Rightarrow> 'v world \<Rightarrow> bool" where
  "gbm_put_raises valuation_object bsm_value maturity strike s e s' =
     ((\<exists>v. present_value valuation_object (me_option s)
             (update_strike valuation_object strike (vobj s)) = (Inl e, v) \<and>
           s' = s\<lparr>vobj := v\<rparr>) \<or>
      (\<exists>mcs v. present_value valuation_object (me_option s)
                 (update_strike valuation_object strike (vobj s)) = (Inr mcs, v) \<and>
           bsm_value ((bsm_option s)\<lparr>bsm_strike := strike\<rparr>) = Inl e \<and>
           s' = s\<lparr>vobj := v,
                  bsm_option := (bsm_option s)\<lparr>bsm_strike := strike\<rparr>\<rparr>))"

text \<open>
  The loop of the European call. Entering a maturity only updates the valuation object;
  at a grid point the strike and then the maturity are assigned to \<^verbatim>\<open>bsm_option\<close> and the
  reference price is what the pricing method returns for it.
\<close>

definition gbm_call_enter :: "'v valuation_object \<Rightarrow> datetime \<Rightarrow> 'v world \<Rightarrow> 'v world" where
  "gbm_call_enter valuation_object maturity s =
     s\<lparr>vobj := update_maturity valuation_object maturity (vobj s)\<rparr>"

definition gbm_call_point ::
  "'v valuation_object \<Rightarrow> (bsm_european_option \<Rightarrow> error + real) \<Rightarrow> datetime \<Rightarrow> real \<Rightarrow>
   'v world \<Rightarrow> 'v world \<Rightarrow> bool" where
  "gbm_call_point valuation_object bsm_value maturity strike s s' =
     (\<exists>mcs ana v.
        present_value valuation_object (me_option s)
          (update_strike valuation_object strike (vobj s)) = (Inr mcs, v) \<and>
        bsm_value ((bsm_option s)\<lparr>bsm_maturity := maturity, bsm_strike := strike\<rparr>) = Inr ana \<and>
        s' = s\<lparr>vobj := v,
               bsm_option := (bsm_option s)\<lparr>bsm_maturity := maturity, bsm_strike := strike\<rparr>,
               stdout := stdout s @
                 [(row_format_gbm,
                   [Float (real_of_int (days_between maturity (pricing_date (me_option s))) / 365),
                    Float strike, Float mcs, Float ana, Float (mcs - ana),
                    divide_times (mcs - ana) ana 100])]\<rparr>)"

definition gbm_call_raises ::
  "'v valuation_object \<Rightarrow> (bsm_european_option \<Rightarrow> error + real) \<Rightarrow> datetime \<Rightarrow> real \<Rightarrow>
   'v world \<Rightarrow> error \<Rightarrow> 'v world \<Rightarrow> bool" where
  "gbm_call_raises valuation_object bsm_value maturity strike s e s' =
     ((\<exists>v. present_value valuation_object (me_option s)
             (update_strike valuation_object strike (vobj s)) = (Inl e, v) \<and>
           s' = s\<lparr>vobj := v\<rparr>) \<or>
      (\<exists>mcs v. present_value valuation_object (me_option s)
                 (update_strike valuation_object strike (vobj s)) = (Inr mcs, v) \<and>
           bsm_value ((bsm_option s)\<lparr>bsm_maturity := maturity, bsm_strike := strike\<rparr>) = Inl e \<and>
           s' = s\<lparr>vobj := v,
                  bsm_option := (bsm_option s)\<lparr>bsm_maturity := maturity, bsm_strike := strike\<rparr>\<rparr>))"

subsection \<open>The benchmark cells of the notebook\<close>

text \<open>
  What the notebook takes from the library: the methods of the eight valuation objects it
  constructs, the two pricing methods of \<^verbatim>\<open>bsm_option\<close> and the six Fourier-based pricing
  functions. The state \<open>'v\<close> is the state of everything on the simulation side, since the
  put and the call of one model share their risk factor object.
\<close>

record 'v dx =
  euro_put_gbm :: "'v valuation_object"
  euro_call_gbm :: "'v valuation_object"
  euro_put_jd :: "'v valuation_object"
  euro_call_jd :: "'v valuation_object"
  euro_put_sv :: "'v valuation_object"
  euro_call_sv :: "'v valuation_object"
  euro_put_svjd :: "'v valuation_object"
  euro_call_svjd :: "'v valuation_object"
  put_value :: "bsm_european_option \<Rightarrow> error + real"
  call_value :: "bsm_european_option \<Rightarrow> error + real"
  M76_put_value :: "market_environment \<Rightarrow> error + real"
  M76_call_value :: "market_environment \<Rightarrow> error + real"
  H93_put_value :: "market_environment \<Rightarrow> error + real"
  H93_call_value :: "market_environment \<Rightarrow> error + real"
  B96_put_value :: "market_environment \<Rightarrow> error + real"
  B96_call_value :: "market_environment \<Rightarrow> error + real"

text \<open>The two cells of the geometric Brownian motion benchmark.\<close>

definition gbm_benchmarks :: "'v dx \<Rightarrow> ('v world \<Rightarrow> error option \<times> 'v world) list" where
  "gbm_benchmarks lib =
     [gbm_put_benchmark (euro_put_gbm lib) (put_value lib),
      gbm_call_benchmark (euro_call_gbm lib) (call_value lib)]"

text \<open>The six cells that call \<^verbatim>\<open>valuation_benchmarking\<close>, in the order of the notebook.\<close>

definition fourier_benchmarks :: "'v dx \<Rightarrow> ('v world \<Rightarrow> error option \<times> 'v world) list" where
  "fourier_benchmarks lib =
     [valuation_benchmarking (euro_put_jd lib) (M76_put_value lib),
      valuation_benchmarking (euro_call_jd lib) (M76_call_value lib),
      valuation_benchmarking (euro_put_sv lib) (H93_put_value lib),
      valuation_benchmarking (euro_call_sv lib) (H93_call_value lib),
      valuation_benchmarking (euro_put_svjd lib) (B96_put_value lib),
      valuation_benchmarking (euro_call_svjd lib) (B96_call_value lib)]"

text \<open>Cells run one after the other on the state the previous one left.\<close>

definition run_cells ::
  "('v world \<Rightarrow> error option \<times> 'v world) list \<Rightarrow> 'v world \<Rightarrow> error option \<times> 'v world" where
  "run_cells cells w = for_each cells (\<lambda>cell. cell) w"

subsection \<open>A small instance\<close>

text \<open>
  An instance on which the benchmarks can be evaluated: the state of the simulation side
  is the number of estimates produced so far, and the estimate is that number plus one;
  the reference price is the strike it is asked for. The second pricing function fails at
  the strike 100.
\<close>

definition counting_object :: "nat valuation_object" where
  "counting_object =
     \<lparr>update_maturity = (\<lambda>maturity v. v),
      update_strike = (\<lambda>strike v. v),
      present_value = (\<lambda>env v. (Inr (real v + 1), Suc v))\<rparr>"

definition strike_price :: "market_environment \<Rightarrow> error + real" where
  "strike_price env =
     (case constants env ''strike'' of
        Some (Number k) \<Rightarrow> Inr k
      | _ \<Rightarrow> Inl (Raised ''KeyError''))"

definition failing_at_100 :: "market_environment \<Rightarrow> error + real" where
  "failing_at_100 env =
     (case constants env ''strike'' of
        Some (Number k) \<Rightarrow> if k = 100 then Inl (Raised ''IntegrationNotConverged'') else Inr k
      | _ \<Rightarrow> Inl (Raised ''KeyError''))"

definition bsm_strike_price :: "bsm_european_option \<Rightarrow> error + real" where
  "bsm_strike_price b = Inr (bsm_strike b)"

text \<open>An object whose estimate raises when the environment it is shown holds the strike 120.\<close>

definition stale_strike_detector :: "nat valuation_object" where
  "stale_strike_detector =
     \<lparr>update_maturity = (\<lambda>maturity v. v),
      update_strike = (\<lambda>strike v. v),
      present_value = (\<lambda>env v.
         if constants env ''strike'' = Some (Number 120)
         then (Inl (Raised ''strike is 120''), v) else (Inr 1, v))\<rparr>"


text \<open>The library in which every valuation object and every pricing function is the one above.\<close>

definition small_dx :: "nat dx" where
  "small_dx =
     \<lparr>euro_put_gbm = counting_object, euro_call_gbm = counting_object,
      euro_put_jd = counting_object, euro_call_jd = counting_object,
      euro_put_sv = counting_object, euro_call_sv = counting_object,
      euro_put_svjd = counting_object, euro_call_svjd = counting_object,
      put_value = bsm_strike_price, call_value = bsm_strike_price,
      M76_put_value = strike_price, M76_call_value = strike_price,
      H93_put_value = strike_price, H93_call_value = strike_price,
      B96_put_value = strike_price, B96_call_value = strike_price\<rparr>"

definition initial_world :: "nat world" where
  "initial_world =
     \<lparr>me_option = me_option_init,
      bsm_option = \<lparr>bsm_maturity = Datetime 2015 12 31, bsm_strike = 100,
                    bsm_mar_env = me_option_init\<rparr>,
      vobj = 0,
      stdout = []\<rparr>"

subsection \<open>The Fourier pricer\<close>

text \<open>
  Modelled from the spec: the pricing functions \<^verbatim>\<open>dx.M76_put_value\<close>, \<^verbatim>\<open>dx.M76_call_value\<close>
  and their Heston and Bates counterparts are called by the notebook but defined elsewhere
  in the library. The specification describes the pricer as follows: it validates its
  inputs (strike and spot positive, maturity after the pricing date, model parameters in
  their domain) and fails with \<open>InvalidParameters\<close> otherwise; it dispatches on the model
  tag, computes the put price through the transform integrator, discounted by
  \<open>exp (- r T)\<close>, and obtains the call from the put by \<open>Call = Put + S0 - K exp (- r T)\<close>.
  The transform integrator, that is the quadrature of the semi-infinite integral for the
  chosen model, is a parameter: it returns the value of the integral or fails.
\<close>

datatype model_parameters =
    GeometricBrownianMotion (sigma: real)
  | JumpDiffusion (sigma: real) (lambda: real) (mu: real) (delta: real)
  | StochasticVolatility (v0: real) (theta: real) (kappa: real) (xi: real) (rho: real)
  | StochVolJumpDiffusion (v0: real) (theta: real) (kappa: real) (xi: real) (rho: real)
      (sigma: real) (lambda: real) (mu: real) (delta: real)

fun valid_parameters :: "model_parameters \<Rightarrow> bool" where
  "valid_parameters (GeometricBrownianMotion s) = (s > 0)"
| "valid_parameters (JumpDiffusion s l m d) = (s > 0 \<and> l \<ge> 0 \<and> d \<ge> 0)"
| "valid_parameters (StochasticVolatility v t k x r) =
     (v \<ge> 0 \<and> t > 0 \<and> k > 0 \<and> x > 0 \<and> - 1 \<le> r \<and> r \<le> 1)"
| "valid_parameters (StochVolJumpDiffusion v t k x r s l m d) =
     (v \<ge> 0 \<and> t > 0 \<and> k > 0 \<and> x > 0 \<and> - 1 \<le> r \<and> r \<le> 1 \<and> s > 0 \<and> l \<ge> 0 \<and> d \<ge> 0)"

datatype option_right = Put | Call

datatype pricing_error = InvalidParameters | NumericalInstability | IntegrationNotConverged

record pricing_environment =
  pe_spot :: real
  pe_pricing_date :: datetime
  pe_short_rate :: real

record option_spec =
  os_strike :: real
  os_maturity :: datetime
  os_right :: option_right

type_synonym transform_integrator =
  "model_parameters \<Rightarrow> real \<Rightarrow> real \<Rightarrow> real \<Rightarrow> real \<Rightarrow> pricing_error + real"

definition time_to_maturity :: "pricing_environment \<Rightarrow> option_spec \<Rightarrow> real" where
  "time_to_maturity env spec =
     real_of_int (days_between (os_maturity spec) (pe_pricing_date env)) / 365"

definition fourier_put ::
  "transform_integrator \<Rightarrow> model_parameters \<Rightarrow> real \<Rightarrow> real \<Rightarrow> real \<Rightarrow> real \<Rightarrow>
   pricing_error + real" where
  "fourier_put integrate params S0 K r T =
     (case integrate params S0 K r T of
        Inl e \<Rightarrow> Inl e
      | Inr int_value \<Rightarrow> Inr (exp (- r * T) * (S0 - sqrt (S0 * K) / pi * int_value)))"

definition fourier_price ::
  "transform_integrator \<Rightarrow> model_parameters \<Rightarrow> pricing_environment \<Rightarrow> option_spec \<Rightarrow>
   pricing_error + real" where
  "fourier_price integrate params env spec =
     (let S0 = pe_spot env; r = pe_short_rate env; K = os_strike spec;
          T = time_to_maturity env spec
      in if \<not> (K > 0 \<and> S0 > 0 \<and> T > 0 \<and> valid_parameters params) then Inl InvalidParameters
         else case fourier_put integrate params S0 K r T of
                Inl e \<Rightarrow> Inl e
              | Inr put \<Rightarrow>
                  (case os_right spec of
                     Put \<Rightarrow> Inr put
                   | Call \<Rightarrow> Inr (put + S0 - K * exp (- r * T))))"

section \<open>Properties of the loops\<close>

subsection \<open>Loops that may raise\<close>

lemma for_each_None_acc:
  assumes "for_each xs body s = (None, s')" and "I s"
    and step: "\<And>x s s'. I s \<Longrightarrow> body x s = (None, s') \<Longrightarrow>
                 I s' \<and> Q x s' \<and> (\<exists>y. A x y \<and> g s' = g s @ h y)"
  shows "I s' \<and> (xs \<noteq> [] \<longrightarrow> Q (last xs) s') \<and>
         (\<exists>ys. list_all2 A xs ys \<and> g s' = g s @ concat (map h ys))"
  using assms
proof (induction xs arbitrary: s)
  case Nil
  then show ?case by simp
next
  case (Cons x xs)
  obtain r s1 where b: "body x s = (r, s1)" by (cases "body x s")
  with Cons.prems(1) have r: "r = None" and rest: "for_each xs body s1 = (None, s')"
    by (auto split: option.splits)
  from Cons.prems(3)[of s x s1] b r Cons.prems(2)
  obtain y where s1: "I s1" "Q x s1" "A x y" "g s1 = g s @ h y" by auto
  have "I s' \<and> (xs \<noteq> [] \<longrightarrow> Q (last xs) s') \<and>
        (\<exists>ys. list_all2 A xs ys \<and> g s' = g s1 @ concat (map h ys))"
    by (rule Cons.IH[OF rest s1(1) Cons.prems(3)])
  then obtain ys where ih: "I s'" "xs \<noteq> [] \<longrightarrow> Q (last xs) s'" "list_all2 A xs ys"
    "g s' = g s1 @ concat (map h ys)" by auto
  with s1 have "list_all2 A (x # xs) (y # ys)" "g s' = g s @ concat (map h (y # ys))" by auto
  moreover have "Q (last (x # xs)) s'"
  proof (cases xs)
    case Nil
    with rest have "s' = s1" by simp
    with s1(2) Nil show ?thesis by simp
  next
    case (Cons a as)
    with ih(2) show ?thesis by simp
  qed
  ultimately show ?case using \<open>I s'\<close> by blast
qed

lemma for_each_Some_acc:
  assumes "for_each xs body s = (Some e, s')" and "I s"
    and step: "\<And>x s s'. I s \<Longrightarrow> body x s = (None, s') \<Longrightarrow>
                 I s' \<and> Q x s' \<and> (\<exists>y. A x y \<and> g s' = g s @ h y)"
  shows "\<exists>n ys s0. n < length xs \<and> list_all2 A (take n xs) ys \<and> I s0 \<and>
            g s0 = g s @ concat (map h ys) \<and> body (xs ! n) s0 = (Some e, s')"
  using assms
proof (induction xs arbitrary: s)
  case Nil
  then show ?case by simp
next
  case (Cons x xs)
  obtain r s1 where b: "body x s = (r, s1)" by (cases "body x s")
  show ?case
  proof (cases r)
    case None
    with Cons.prems(1) b have rest: "for_each xs body s1 = (Some e, s')" by simp
    from Cons.prems(3)[of s x s1] b None Cons.prems(2)
    obtain y where s1: "I s1" "A x y" "g s1 = g s @ h y" by auto
    have "\<exists>n ys s0. n < length xs \<and> list_all2 A (take n xs) ys \<and> I s0 \<and>
            g s0 = g s1 @ concat (map h ys) \<and> body (xs ! n) s0 = (Some e, s')"
      by (rule Cons.IH[OF rest s1(1) Cons.prems(3)])
    then obtain n ys s0 where n: "n < length xs" "list_all2 A (take n xs) ys" "I s0"
      "g s0 = g s1 @ concat (map h ys)" "body (xs ! n) s0 = (Some e, s')" by blast
    with s1 have "Suc n < length (x # xs)" "list_all2 A (take (Suc n) (x # xs)) (y # ys)"
      "g s0 = g s @ concat (map h (y # ys))" "body ((x # xs) ! Suc n) s0 = (Some e, s')"
      by auto
    with \<open>I s0\<close> show ?thesis by blast
  next
    case (Some e')
    with Cons.prems(1) b have "e' = e" "s1 = s'" by auto
    with b Some Cons.prems(2) have "0 < length (x # xs)" "list_all2 A (take 0 (x # xs)) []"
      "I s" "g s = g s @ concat (map h [])" "body ((x # xs) ! 0) s = (Some e, s')" by auto
    then show ?thesis by blast
  qed
qed

lemma list_all2_product_concat:
  assumes "list_all2 (\<lambda>x ys. list_all2 (A x) ks ys) xs yss"
  shows "list_all2 (\<lambda>(x, k) y. A x k y) (List.product xs ks) (concat yss)"
  using assms
proof (induction rule: list_all2_induct)
  case Nil
  then show ?case by simp
next
  case (Cons x xs ys yss)
  have "list_all2 (\<lambda>(x, k) y. A x k y) (map (Pair x) ks) ys"
    using Cons.hyps(1) by (simp add: list_all2_map1)
  with Cons.IH show ?case by (simp add: list_all2_appendI)
qed


subsection \<open>The grid\<close>

lemma date_range_from_3:
  "date_range_from d n 3 = [d, add_months n d, add_months n (add_months n d)]"
  by (simp add: numeral_3_eq_3)

lemma maturities_eq: "maturities = [Datetime 2015 3 31, Datetime 2015 5 31, Datetime 2015 7 31]"
  by (simp add: maturities_def start_date_def freq_def periods_def rollforward_def
      add_months_def days_in_month_def is_leap_def date_range_from_3)

lemma strike_grid_eq: "strike_grid = [80, 90, 100, 110, 120]"
  by (simp add: strike_grid_def linspace_def strikes_def start_def end_pct_def
      initial_value_def upt_rec)

subsection \<open>The function \<^verbatim>\<open>valuation_benchmarking\<close>\<close>

lemma pricing_date_add_constant [simp]: "pricing_date (add_constant key c env) = pricing_date env"
  by (simp add: add_constant_def)

lemma constants_add_constant [simp]:
  "constants (add_constant key c env) = (constants env)(key \<mapsto> c)"
  by (simp add: add_constant_def)

lemma add_constant_twice [simp]:
  "add_constant key c (add_constant key c' env) = add_constant key c env"
  by (simp add: add_constant_def)

lemma add_constant_maturity_strike [simp]:
  "add_constant ''maturity'' c (add_constant ''strike'' c' env) =
   add_constant ''strike'' c' (add_constant ''maturity'' c env)"
  by (simp add: add_constant_def fun_upd_twist)

lemma vb_strike_None:
  assumes "valuation_benchmarking_strike vo ff m k s = (None, s')"
  shows "me_option s' = add_constant ''strike'' (Number k) (me_option s)"
    and "bsm_option s' = bsm_option s"
    and "\<exists>mcs fou. fst (present_value vo (me_option s) (update_strike vo k (vobj s))) = Inr mcs \<and>
           ff (add_constant ''strike'' (Number k) (me_option s)) = Inr fou \<and>
           stdout s' = stdout s @
             [(row_format,
               [Float (real_of_int (days_between m (pricing_date (me_option s))) / 365),
                Float k, Float mcs, Float fou, Float (mcs - fou),
                divide_times (mcs - fou) fou 100])]"
  using assms
  by (auto simp: valuation_benchmarking_strike_def Let_def print_def
           split: prod.splits sum.splits if_splits)

lemma vb_strike_Some:
  assumes "valuation_benchmarking_strike vo ff m k s = (Some e, s')"
  shows "stdout s' = stdout s"
  using assms
  by (auto simp: valuation_benchmarking_strike_def Let_def print_def
           split: prod.splits sum.splits if_splits)

lemma vb_strike_step:
  assumes "vb_inv E B m s" and "valuation_benchmarking_strike vo ff m k s = (None, s')"
  shows "vb_inv E B m s' \<and>
         me_option s' = add_constant ''strike'' (Number k) (add_constant ''maturity'' (Date m) E) \<and>
         (\<exists>y. fourier_row vo ff E m k y \<and> stdout s' = stdout s @ [y])"
proof -
  note n = vb_strike_None[OF assms(2)]
  from assms(1) have pd: "pricing_date (me_option s) = pricing_date E"
    and me: "add_constant ''strike'' (Number k) (me_option s) =
             add_constant ''strike'' (Number k) (add_constant ''maturity'' (Date m) E)"
    by (auto simp: vb_inv_def)
  from n(3) obtain mcs fou where
    *: "fst (present_value vo (me_option s) (update_strike vo k (vobj s))) = Inr mcs"
       "ff (add_constant ''strike'' (Number k) (me_option s)) = Inr fou"
       "stdout s' = stdout s @
             [(row_format,
               [Float (real_of_int (days_between m (pricing_date (me_option s))) / 365),
                Float k, Float mcs, Float fou, Float (mcs - fou),
                divide_times (mcs - fou) fou 100])]"
    by blast
  have "fourier_row vo ff E m k (row_format,
               [Float (real_of_int (days_between m (pricing_date E)) / 365),
                Float k, Float mcs, Float fou, Float (mcs - fou),
                divide_times (mcs - fou) fou 100])"
    unfolding fourier_row_def using * me by auto
  with *(3) pd have "\<exists>y. fourier_row vo ff E m k y \<and> stdout s' = stdout s @ [y]" by auto
  moreover have "vb_inv E B m s'"
    using assms(1) n(1,2) me by (auto simp: vb_inv_def)
  ultimately show ?thesis using n(1) me by simp
qed

lemma vb_strikes_None:
  assumes "for_each ks (valuation_benchmarking_strike vo ff m) s = (None, s')"
    and "vb_inv E B m s"
  shows "vb_inv E B m s' \<and>
         (ks \<noteq> [] \<longrightarrow> me_option s' =
            add_constant ''strike'' (Number (last ks)) (add_constant ''maturity'' (Date m) E)) \<and>
         (\<exists>ys. list_all2 (fourier_row vo ff E m) ks ys \<and> stdout s' = stdout s @ ys)"
proof -
  have "vb_inv E B m s' \<and>
        (ks \<noteq> [] \<longrightarrow> me_option s' =
            add_constant ''strike'' (Number (last ks)) (add_constant ''maturity'' (Date m) E)) \<and>
        (\<exists>ys. list_all2 (fourier_row vo ff E m) ks ys \<and>
              stdout s' = stdout s @ concat (map (\<lambda>y. [y]) ys))"
  proof (rule for_each_None_acc[where I = "vb_inv E B m" and g = stdout and h = "\<lambda>y. [y]"
          and Q = "\<lambda>k s. me_option s =
                    add_constant ''strike'' (Number k) (add_constant ''maturity'' (Date m) E)",
          OF assms])
    fix x s s'
    assume "vb_inv E B m s" "valuation_benchmarking_strike vo ff m x s = (None, s')"
    from vb_strike_step[OF this]
    show "vb_inv E B m s' \<and>
          me_option s' =
            add_constant ''strike'' (Number x) (add_constant ''maturity'' (Date m) E) \<and>
          (\<exists>y. fourier_row vo ff E m x y \<and> stdout s' = stdout s @ [y])" .
  qed
  then show ?thesis by simp
qed

lemma take_product:
  assumes "n < length xs" and "j \<le> length ks"
  shows "take (n * length ks + j) (List.product xs ks) =
         List.product (take n xs) ks @ map (Pair (xs ! n)) (take j ks)"
  using assms
proof (induction xs arbitrary: n)
  case Nil
  then show ?case by simp
next
  case (Cons x xs)
  show ?case
  proof (cases n)
    case 0
    with Cons.prems show ?thesis by (simp add: take_map)
  next
    case (Suc n')
    with Cons.prems have "n' < length xs" by simp
    from Cons.IH[OF this Cons.prems(2)] Suc show ?thesis by (simp add: add.assoc)
  qed
qed

lemma vb_strikes_Some:
  assumes "for_each ks (valuation_benchmarking_strike vo ff m) s = (Some e, s')"
    and "vb_inv E B m s"
  shows "\<exists>j ys. j < length ks \<and> list_all2 (fourier_row vo ff E m) (take j ks) ys \<and>
           stdout s' = stdout s @ ys"
proof -
  have "\<exists>n ys s0. n < length ks \<and> list_all2 (fourier_row vo ff E m) (take n ks) ys \<and>
          vb_inv E B m s0 \<and> stdout s0 = stdout s @ concat (map (\<lambda>y. [y]) ys) \<and>
          valuation_benchmarking_strike vo ff m (ks ! n) s0 = (Some e, s')"
  proof (rule for_each_Some_acc[where I = "vb_inv E B m" and g = stdout and h = "\<lambda>y. [y]"
          and Q = "\<lambda>k s. me_option s =
                    add_constant ''strike'' (Number k) (add_constant ''maturity'' (Date m) E)",
          OF assms])
    fix x s s'
    assume "vb_inv E B m s" "valuation_benchmarking_strike vo ff m x s = (None, s')"
    from vb_strike_step[OF this]
    show "vb_inv E B m s' \<and>
          me_option s' =
            add_constant ''strike'' (Number x) (add_constant ''maturity'' (Date m) E) \<and>
          (\<exists>y. fourier_row vo ff E m x y \<and> stdout s' = stdout s @ [y])" .
  qed
  then obtain n ys s0 where *: "n < length ks"
    "list_all2 (fourier_row vo ff E m) (take n ks) ys"
    "stdout s0 = stdout s @ concat (map (\<lambda>y. [y]) ys)"
    "valuation_benchmarking_strike vo ff m (ks ! n) s0 = (Some e, s')" by blast
  from vb_strike_Some[OF *(4)] *(3) have "stdout s' = stdout s @ ys" by simp
  with *(1,2) show ?thesis by blast
qed

lemma vb_maturity_inv:
  assumes "vb_outer_inv E B s"
  shows "vb_inv E B m
           (s\<lparr>vobj := v, me_option := add_constant ''maturity'' (Date m) (me_option s)\<rparr>)"
  using assms by (auto simp: vb_outer_inv_def vb_inv_def)

lemma strike_grid_nonempty: "strike_grid \<noteq> []" "last strike_grid = 120" "length strike_grid = 5"
  by (simp_all add: strike_grid_eq)

lemma vb_maturity_step:
  assumes "vb_outer_inv E B s" and "valuation_benchmarking_maturity vo ff m s = (None, s')"
  shows "vb_outer_inv E B s' \<and>
         me_option s' =
           add_constant ''strike'' (Number 120) (add_constant ''maturity'' (Date m) E) \<and>
         (\<exists>ys. list_all2 (fourier_row vo ff E m) strike_grid ys \<and> stdout s' = stdout s @ ys)"
proof -
  let ?s2 = "s\<lparr>vobj := update_maturity vo m (vobj s),
               me_option := add_constant ''maturity'' (Date m) (me_option s)\<rparr>"
  from assms(2) have run: "for_each strike_grid (valuation_benchmarking_strike vo ff m) ?s2 = (None, s')"
    by (simp add: valuation_benchmarking_maturity_def Let_def)
  from vb_strikes_None[OF run vb_maturity_inv[OF assms(1)]] strike_grid_nonempty
  have inv: "vb_inv E B m s'"
    and me: "me_option s' =
           add_constant ''strike'' (Number 120) (add_constant ''maturity'' (Date m) E)"
    and rows: "\<exists>ys. list_all2 (fourier_row vo ff E m) strike_grid ys \<and>
                 stdout s' = stdout ?s2 @ ys"
    by auto
  from inv me have "vb_outer_inv E B s'" by (auto simp: vb_inv_def vb_outer_inv_def)
  with me rows show ?thesis by simp
qed

lemma vb_maturity_Some:
  assumes "vb_outer_inv E B s" and "valuation_benchmarking_maturity vo ff m s = (Some e, s')"
  shows "\<exists>j ys. j < 5 \<and> list_all2 (fourier_row vo ff E m) (take j strike_grid) ys \<and>
           stdout s' = stdout s @ ys"
proof -
  let ?s2 = "s\<lparr>vobj := update_maturity vo m (vobj s),
               me_option := add_constant ''maturity'' (Date m) (me_option s)\<rparr>"
  from assms(2) have run: "for_each strike_grid (valuation_benchmarking_strike vo ff m) ?s2 = (Some e, s')"
    by (simp add: valuation_benchmarking_maturity_def Let_def)
  from vb_strikes_Some[OF run vb_maturity_inv[OF assms(1)]] strike_grid_nonempty
  show ?thesis by simp
qed

lemma vb_inv_start: "vb_outer_inv (me_option w) (bsm_option w) (print header w)"
  by (simp add: vb_outer_inv_def print_def)

lemma valuation_benchmarking_None:
  assumes "valuation_benchmarking vo ff w = (None, w')"
  shows "me_option w' =
           add_constant ''strike'' (Number 120)
             (add_constant ''maturity'' (Date (Datetime 2015 7 31)) (me_option w))"
    and "bsm_option w' = bsm_option w"
    and "\<exists>rows. stdout w' = stdout w @ header # rows \<and>
           list_all2 (\<lambda>(m, k). fourier_row vo ff (me_option w) m k)
             (List.product maturities strike_grid) rows"
proof -
  let ?E = "me_option w" and ?B = "bsm_option w"
  from assms have run: "for_each maturities (valuation_benchmarking_maturity vo ff)
                          (print header w) = (None, w')"
    by (simp add: valuation_benchmarking_def)
  have "vb_outer_inv ?E ?B w' \<and>
        (maturities \<noteq> [] \<longrightarrow> me_option w' =
           add_constant ''strike'' (Number 120)
             (add_constant ''maturity'' (Date (last maturities)) ?E)) \<and>
        (\<exists>yss. list_all2 (\<lambda>m ys. list_all2 (fourier_row vo ff ?E m) strike_grid ys) maturities yss \<and>
               stdout w' = stdout (print header w) @ concat (map (\<lambda>ys. ys) yss))"
  proof (rule for_each_None_acc[where I = "vb_outer_inv ?E ?B" and g = stdout
          and h = "\<lambda>ys. ys"
          and Q = "\<lambda>m s. me_option s =
                    add_constant ''strike'' (Number 120) (add_constant ''maturity'' (Date m) ?E)",
          OF run vb_inv_start])
    fix x s s'
    assume "vb_outer_inv ?E ?B s" "valuation_benchmarking_maturity vo ff x s = (None, s')"
    from vb_maturity_step[OF this]
    show "vb_outer_inv ?E ?B s' \<and>
          me_option s' =
            add_constant ''strike'' (Number 120) (add_constant ''maturity'' (Date x) ?E) \<and>
          (\<exists>ys. list_all2 (fourier_row vo ff ?E x) strike_grid ys \<and> stdout s' = stdout s @ ys)" .
  qed
  then obtain yss where inv: "vb_outer_inv ?E ?B w'"
    and me: "me_option w' =
           add_constant ''strike'' (Number 120)
             (add_constant ''maturity'' (Date (last maturities)) ?E)"
    and yss: "list_all2 (\<lambda>m ys. list_all2 (fourier_row vo ff ?E m) strike_grid ys) maturities yss"
    and out: "stdout w' = stdout (print header w) @ concat yss"
    by (auto simp: maturities_eq)
  from me show "me_option w' =
           add_constant ''strike'' (Number 120)
             (add_constant ''maturity'' (Date (Datetime 2015 7 31)) (me_option w))"
    by (simp add: maturities_eq)
  from inv show "bsm_option w' = bsm_option w" by (simp add: vb_outer_inv_def)
  from list_all2_product_concat[OF yss] out
  show "\<exists>rows. stdout w' = stdout w @ header # rows \<and>
           list_all2 (\<lambda>(m, k). fourier_row vo ff (me_option w) m k)
             (List.product maturities strike_grid) rows"
    by (auto simp: print_def)
qed

lemma valuation_benchmarking_Some:
  assumes "valuation_benchmarking vo ff w = (Some e, w')"
  shows "\<exists>n rows. n < 15 \<and> stdout w' = stdout w @ header # rows \<and>
           list_all2 (\<lambda>(m, k). fourier_row vo ff (me_option w) m k)
             (take n (List.product maturities strike_grid)) rows"
proof -
  let ?E = "me_option w" and ?B = "bsm_option w"
  from assms have run: "for_each maturities (valuation_benchmarking_maturity vo ff)
                          (print header w) = (Some e, w')"
    by (simp add: valuation_benchmarking_def)
  have "\<exists>n yss s0. n < length maturities \<and>
          list_all2 (\<lambda>m ys. list_all2 (fourier_row vo ff ?E m) strike_grid ys) (take n maturities) yss \<and>
          vb_outer_inv ?E ?B s0 \<and>
          stdout s0 = stdout (print header w) @ concat (map (\<lambda>ys. ys) yss) \<and>
          valuation_benchmarking_maturity vo ff (maturities ! n) s0 = (Some e, w')"
  proof (rule for_each_Some_acc[where I = "vb_outer_inv ?E ?B" and g = stdout
          and h = "\<lambda>ys. ys"
          and Q = "\<lambda>m s. me_option s =
                    add_constant ''strike'' (Number 120) (add_constant ''maturity'' (Date m) ?E)",
          OF run vb_inv_start])
    fix x s s'
    assume "vb_outer_inv ?E ?B s" "valuation_benchmarking_maturity vo ff x s = (None, s')"
    from vb_maturity_step[OF this]
    show "vb_outer_inv ?E ?B s' \<and>
          me_option s' =
            add_constant ''strike'' (Number 120) (add_constant ''maturity'' (Date x) ?E) \<and>
          (\<exists>ys. list_all2 (fourier_row vo ff ?E x) strike_grid ys \<and> stdout s' = stdout s @ ys)" .
  qed
  then obtain n yss s0 where n: "n < length maturities"
    and yss: "list_all2 (\<lambda>m ys. list_all2 (fourier_row vo ff ?E m) strike_grid ys)
                (take n maturities) yss"
    and inv: "vb_outer_inv ?E ?B s0"
    and out: "stdout s0 = stdout (print header w) @ concat yss"
    and fail: "valuation_benchmarking_maturity vo ff (maturities ! n) s0 = (Some e, w')"
    by auto
  from vb_maturity_Some[OF inv fail] obtain j ys where j: "j < 5"
    and ys: "list_all2 (fourier_row vo ff ?E (maturities ! n)) (take j strike_grid) ys"
    and out': "stdout w' = stdout s0 @ ys" by blast
  have "list_all2 (\<lambda>(m, k). fourier_row vo ff ?E m k)
          (map (Pair (maturities ! n)) (take j strike_grid)) ys"
    using ys by (simp add: list_all2_map1)
  with list_all2_product_concat[OF yss]
  have "list_all2 (\<lambda>(m, k). fourier_row vo ff ?E m k)
          (List.product (take n maturities) strike_grid @
           map (Pair (maturities ! n)) (take j strike_grid)) (concat yss @ ys)"
    by (rule list_all2_appendI)
  moreover have "take (n * length strike_grid + j) (List.product maturities strike_grid) =
          List.product (take n maturities) strike_grid @
           map (Pair (maturities ! n)) (take j strike_grid)"
    using n j by (intro take_product) (simp_all add: strike_grid_nonempty)
  moreover have "n * length strike_grid + j < 15"
    using n j by (simp add: strike_grid_nonempty maturities_eq)
  moreover have "stdout w' = stdout w @ header # (concat yss @ ys)"
    using out out' by (simp add: print_def)
  ultimately show ?thesis by metis
qed

subsection \<open>The loops of the geometric Brownian motion benchmark\<close>

lemma bsm_update_commute [simp]:
  "b\<lparr>bsm_strike := k, bsm_maturity := m\<rparr> = b\<lparr>bsm_maturity := m, bsm_strike := k\<rparr>"
  by (cases b) simp

lemma bsm_update_self: "\<exists>m k. (b :: bsm_european_option) = b\<lparr>bsm_maturity := m, bsm_strike := k\<rparr>"
  by (rule exI[of _ "bsm_maturity b"], rule exI[of _ "bsm_strike b"]) simp

lemma gbm_put_strike_step:
  assumes "gbm_put_inv E B m s" and "gbm_put_strike vo pv m k s = (None, s')"
  shows "gbm_put_inv E B m s' \<and> True \<and>
         (\<exists>y. gbm_row vo pv B E m k y \<and> stdout s' = stdout s @ [y])"
proof -
  from assms(1) obtain k' where me: "me_option s = E"
    and b: "bsm_option s = B\<lparr>bsm_maturity := m, bsm_strike := k'\<rparr>"
    by (auto simp: gbm_put_inv_def)
  from assms(2) obtain mcs ana where
    *: "fst (present_value vo (me_option s) (update_strike vo k (vobj s))) = Inr mcs"
       "pv ((bsm_option s)\<lparr>bsm_strike := k\<rparr>) = Inr ana"
       "stdout s' = stdout s @
             [(row_format_gbm,
               [Float (real_of_int (days_between m (pricing_date (me_option s))) / 365),
                Float k, Float mcs, Float ana, Float (mcs - ana),
                divide_times (mcs - ana) ana 100])]"
       "me_option s' = me_option s" "bsm_option s' = (bsm_option s)\<lparr>bsm_strike := k\<rparr>"
    by (auto simp: gbm_put_strike_def Let_def print_def
             split: prod.splits sum.splits if_splits)
  have "gbm_row vo pv B E m k (row_format_gbm,
               [Float (real_of_int (days_between m (pricing_date E)) / 365),
                Float k, Float mcs, Float ana, Float (mcs - ana),
                divide_times (mcs - ana) ana 100])"
    unfolding gbm_row_def using *(1,2) me b by auto
  with *(3) me have "\<exists>y. gbm_row vo pv B E m k y \<and> stdout s' = stdout s @ [y]" by auto
  moreover have "gbm_put_inv E B m s'"
    using *(4,5) me b by (auto simp: gbm_put_inv_def)
  ultimately show ?thesis by simp
qed

lemma gbm_put_maturity_step:
  assumes "gbm_inv E B s" and "gbm_put_maturity vo pv m s = (None, s')"
  shows "gbm_inv E B s' \<and> True \<and>
         (\<exists>ys. list_all2 (gbm_row vo pv B E m) strike_grid ys \<and> stdout s' = stdout s @ ys)"
proof -
  let ?s2 = "s\<lparr>bsm_option := (bsm_option s)\<lparr>bsm_maturity := m\<rparr>,
               vobj := update_maturity vo m (vobj s)\<rparr>"
  from assms(2) have run: "for_each strike_grid (gbm_put_strike vo pv m) ?s2 = (None, s')"
    by (simp add: gbm_put_maturity_def Let_def)
  from assms(1) have start: "gbm_put_inv E B m ?s2"
    by (auto simp: gbm_inv_def gbm_put_inv_def)
  have "gbm_put_inv E B m s' \<and> (strike_grid \<noteq> [] \<longrightarrow> True) \<and>
        (\<exists>ys. list_all2 (gbm_row vo pv B E m) strike_grid ys \<and>
              stdout s' = stdout ?s2 @ concat (map (\<lambda>y. [y]) ys))"
  proof (rule for_each_None_acc[where I = "gbm_put_inv E B m" and g = stdout
          and h = "\<lambda>y. [y]" and Q = "\<lambda>k s. True", OF run start])
    fix x s s'
    assume "gbm_put_inv E B m s" "gbm_put_strike vo pv m x s = (None, s')"
    from gbm_put_strike_step[OF this]
    show "gbm_put_inv E B m s' \<and> True \<and>
          (\<exists>y. gbm_row vo pv B E m x y \<and> stdout s' = stdout s @ [y])" .
  qed
  then show ?thesis by (auto simp: gbm_inv_def gbm_put_inv_def)
qed

lemma gbm_inv_start: "gbm_inv (me_option w) (bsm_option w) (print header w)"
  using bsm_update_self[of "bsm_option w"] by (simp add: gbm_inv_def print_def)

lemma gbm_put_benchmark_None:
  assumes "gbm_put_benchmark vo pv w = (None, w')"
  shows "me_option w' = me_option w"
    and "\<exists>rows. stdout w' = stdout w @ header # rows \<and>
           list_all2 (\<lambda>(m, k). gbm_row vo pv (bsm_option w) (me_option w) m k)
             (List.product maturities strike_grid) rows"
proof -
  let ?E = "me_option w" and ?B = "bsm_option w"
  from assms have run: "for_each maturities (gbm_put_maturity vo pv) (print header w) = (None, w')"
    by (simp add: gbm_put_benchmark_def)
  have "gbm_inv ?E ?B w' \<and> (maturities \<noteq> [] \<longrightarrow> True) \<and>
        (\<exists>yss. list_all2 (\<lambda>m ys. list_all2 (gbm_row vo pv ?B ?E m) strike_grid ys) maturities yss \<and>
               stdout w' = stdout (print header w) @ concat (map (\<lambda>ys. ys) yss))"
  proof (rule for_each_None_acc[where I = "gbm_inv ?E ?B" and g = stdout
          and h = "\<lambda>ys. ys" and Q = "\<lambda>m s. True", OF run gbm_inv_start])
    fix x s s'
    assume "gbm_inv ?E ?B s" "gbm_put_maturity vo pv x s = (None, s')"
    from gbm_put_maturity_step[OF this]
    show "gbm_inv ?E ?B s' \<and> True \<and>
          (\<exists>ys. list_all2 (gbm_row vo pv ?B ?E x) strike_grid ys \<and> stdout s' = stdout s @ ys)" .
  qed
  then obtain yss where inv: "gbm_inv ?E ?B w'"
    and yss: "list_all2 (\<lambda>m ys. list_all2 (gbm_row vo pv ?B ?E m) strike_grid ys) maturities yss"
    and out: "stdout w' = stdout (print header w) @ concat yss"
    by auto
  from inv show "me_option w' = me_option w" by (simp add: gbm_inv_def)
  from list_all2_product_concat[OF yss] out
  show "\<exists>rows. stdout w' = stdout w @ header # rows \<and>
           list_all2 (\<lambda>(m, k). gbm_row vo pv (bsm_option w) (me_option w) m k)
             (List.product maturities strike_grid) rows"
    by (auto simp: print_def)
qed

lemma gbm_call_strike_step:
  assumes "gbm_inv E B s" and "gbm_call_strike vo cv m k s = (None, s')"
  shows "gbm_inv E B s' \<and> True \<and>
         (\<exists>y. gbm_row vo cv B E m k y \<and> stdout s' = stdout s @ [y])"
proof -
  from assms(1) obtain m' k' where me: "me_option s = E"
    and b: "bsm_option s = B\<lparr>bsm_maturity := m', bsm_strike := k'\<rparr>"
    by (auto simp: gbm_inv_def)
  from assms(2) obtain mcs ana where
    *: "fst (present_value vo (me_option s) (update_strike vo k (vobj s))) = Inr mcs"
       "cv ((bsm_option s)\<lparr>bsm_strike := k, bsm_maturity := m\<rparr>) = Inr ana"
       "stdout s' = stdout s @
             [(row_format_gbm,
               [Float (real_of_int (days_between m (pricing_date (me_option s))) / 365),
                Float k, Float mcs, Float ana, Float (mcs - ana),
                divide_times (mcs - ana) ana 100])]"
       "me_option s' = me_option s"
       "bsm_option s' = (bsm_option s)\<lparr>bsm_strike := k, bsm_maturity := m\<rparr>"
    by (auto simp: gbm_call_strike_def Let_def print_def
             split: prod.splits sum.splits if_splits)
  have "gbm_row vo cv B E m k (row_format_gbm,
               [Float (real_of_int (days_between m (pricing_date E)) / 365),
                Float k, Float mcs, Float ana, Float (mcs - ana),
                divide_times (mcs - ana) ana 100])"
    unfolding gbm_row_def using *(1,2) me b by auto
  with *(3) me have "\<exists>y. gbm_row vo cv B E m k y \<and> stdout s' = stdout s @ [y]" by auto
  moreover have "gbm_inv E B s'"
    using *(4,5) me b by (auto simp: gbm_inv_def)
  ultimately show ?thesis by simp
qed

lemma gbm_call_maturity_step:
  assumes "gbm_inv E B s" and "gbm_call_maturity vo cv m s = (None, s')"
  shows "gbm_inv E B s' \<and> True \<and>
         (\<exists>ys. list_all2 (gbm_row vo cv B E m) strike_grid ys \<and> stdout s' = stdout s @ ys)"
proof -
  let ?s2 = "s\<lparr>vobj := update_maturity vo m (vobj s)\<rparr>"
  from assms(2) have run: "for_each strike_grid (gbm_call_strike vo cv m) ?s2 = (None, s')"
    by (simp add: gbm_call_maturity_def Let_def)
  from assms(1) have start: "gbm_inv E B ?s2"
    by (auto simp: gbm_inv_def)
  have "gbm_inv E B s' \<and> (strike_grid \<noteq> [] \<longrightarrow> True) \<and>
        (\<exists>ys. list_all2 (gbm_row vo cv B E m) strike_grid ys \<and>
              stdout s' = stdout ?s2 @ concat (map (\<lambda>y. [y]) ys))"
  proof (rule for_each_None_acc[where I = "gbm_inv E B" and g = stdout
          and h = "\<lambda>y. [y]" and Q = "\<lambda>k s. True", OF run start])
    fix x s s'
    assume "gbm_inv E B s" "gbm_call_strike vo cv m x s = (None, s')"
    from gbm_call_strike_step[OF this]
    show "gbm_inv E B s' \<and> True \<and>
          (\<exists>y. gbm_row vo cv B E m x y \<and> stdout s' = stdout s @ [y])" .
  qed
  then show ?thesis by auto
qed

lemma gbm_call_benchmark_None:
  assumes "gbm_call_benchmark vo cv w = (None, w')"
  shows "me_option w' = me_option w"
    and "\<exists>rows. stdout w' = stdout w @ header # rows \<and>
           list_all2 (\<lambda>(m, k). gbm_row vo cv (bsm_option w) (me_option w) m k)
             (List.product maturities strike_grid) rows"
proof -
  let ?E = "me_option w" and ?B = "bsm_option w"
  from assms have run: "for_each maturities (gbm_call_maturity vo cv) (print header w) = (None, w')"
    by (simp add: gbm_call_benchmark_def)
  have "gbm_inv ?E ?B w' \<and> (maturities \<noteq> [] \<longrightarrow> True) \<and>
        (\<exists>yss. list_all2 (\<lambda>m ys. list_all2 (gbm_row vo cv ?B ?E m) strike_grid ys) maturities yss \<and>
               stdout w' = stdout (print header w) @ concat (map (\<lambda>ys. ys) yss))"
  proof (rule for_each_None_acc[where I = "gbm_inv ?E ?B" and g = stdout
          and h = "\<lambda>ys. ys" and Q = "\<lambda>m s. True", OF run gbm_inv_start])
    fix x s s'
    assume "gbm_inv ?E ?B s" "gbm_call_maturity vo cv x s = (None, s')"
    from gbm_call_maturity_step[OF this]
    show "gbm_inv ?E ?B s' \<and> True \<and>
          (\<exists>ys. list_all2 (gbm_row vo cv ?B ?E x) strike_grid ys \<and> stdout s' = stdout s @ ys)" .
  qed
  then obtain yss where inv: "gbm_inv ?E ?B w'"
    and yss: "list_all2 (\<lambda>m ys. list_all2 (gbm_row vo cv ?B ?E m) strike_grid ys) maturities yss"
    and out: "stdout w' = stdout (print header w) @ concat yss"
    by auto
  from inv show "me_option w' = me_option w" by (simp add: gbm_inv_def)
  from list_all2_product_concat[OF yss] out
  show "\<exists>rows. stdout w' = stdout w @ header # rows \<and>
           list_all2 (\<lambda>(m, k). gbm_row vo cv (bsm_option w) (me_option w) m k)
             (List.product maturities strike_grid) rows"
    by (auto simp: print_def)
qed

subsection \<open>Evaluation on the small instance\<close>

lemma for_each_all_None:
  assumes "\<And>x s. x \<in> set xs \<Longrightarrow> fst (body x s) = None"
  shows "fst (for_each xs body s) = None"
  using assms
proof (induction xs arbitrary: s)
  case Nil
  then show ?case by simp
next
  case (Cons x xs)
  obtain r s1 where b: "body x s = (r, s1)" by (cases "body x s")
  with Cons.prems[of x s] have "r = None" by simp
  with b Cons.IH[of s1] Cons.prems show ?case by simp
qed

lemma counting_strike_None:
  "fst (valuation_benchmarking_strike counting_object strike_price m k s) = None"
  by (simp add: valuation_benchmarking_strike_def counting_object_def strike_price_def
      print_def Let_def)

lemma counting_run_None:
  "fst (valuation_benchmarking counting_object strike_price w) = None"
  unfolding valuation_benchmarking_def valuation_benchmarking_maturity_def Let_def
  by (intro for_each_all_None) (auto simp: strike_grid_eq counting_strike_None)

lemma counting_gbm_put_None:
  "fst (gbm_put_benchmark counting_object bsm_strike_price w) = None"
  unfolding gbm_put_benchmark_def gbm_put_maturity_def Let_def
  by (intro for_each_all_None)
     (auto simp: strike_grid_eq gbm_put_strike_def counting_object_def bsm_strike_price_def
        print_def Let_def)

lemma counting_gbm_call_None:
  "fst (gbm_call_benchmark counting_object bsm_strike_price w) = None"
  unfolding gbm_call_benchmark_def gbm_call_maturity_def Let_def
  by (intro for_each_all_None)
     (auto simp: strike_grid_eq gbm_call_strike_def counting_object_def bsm_strike_price_def
        print_def Let_def)


subsection \<open>Runs that end with an exception, and runs in general\<close>

lemma gbm_put_strike_Some:
  assumes "gbm_put_strike vo pv m k s = (Some e, s')"
  shows "stdout s' = stdout s"
  using assms
  by (auto simp: gbm_put_strike_def Let_def print_def split: prod.splits sum.splits if_splits)

lemma gbm_call_strike_Some:
  assumes "gbm_call_strike vo cv m k s = (Some e, s')"
  shows "stdout s' = stdout s"
  using assms
  by (auto simp: gbm_call_strike_def Let_def print_def split: prod.splits sum.splits if_splits)

lemma gbm_put_maturity_Some:
  assumes "gbm_inv E B s" and "gbm_put_maturity vo pv m s = (Some e, s')"
  shows "\<exists>j ys. j < 5 \<and> list_all2 (gbm_row vo pv B E m) (take j strike_grid) ys \<and>
           stdout s' = stdout s @ ys"
proof -
  let ?s2 = "s\<lparr>bsm_option := (bsm_option s)\<lparr>bsm_maturity := m\<rparr>,
               vobj := update_maturity vo m (vobj s)\<rparr>"
  from assms(2) have run: "for_each strike_grid (gbm_put_strike vo pv m) ?s2 = (Some e, s')"
    by (simp add: gbm_put_maturity_def Let_def)
  from assms(1) have start: "gbm_put_inv E B m ?s2"
    by (auto simp: gbm_inv_def gbm_put_inv_def)
  have "\<exists>n ys s0. n < length strike_grid \<and>
          list_all2 (gbm_row vo pv B E m) (take n strike_grid) ys \<and>
          gbm_put_inv E B m s0 \<and> stdout s0 = stdout ?s2 @ concat (map (\<lambda>y. [y]) ys) \<and>
          gbm_put_strike vo pv m (strike_grid ! n) s0 = (Some e, s')"
  proof (rule for_each_Some_acc[where I = "gbm_put_inv E B m" and g = stdout
          and h = "\<lambda>y. [y]" and Q = "\<lambda>k s. True", OF run start])
    fix x s s'
    assume "gbm_put_inv E B m s" "gbm_put_strike vo pv m x s = (None, s')"
    from gbm_put_strike_step[OF this]
    show "gbm_put_inv E B m s' \<and> True \<and>
          (\<exists>y. gbm_row vo pv B E m x y \<and> stdout s' = stdout s @ [y])" .
  qed
  then obtain n ys s0 where *: "n < length strike_grid"
    "list_all2 (gbm_row vo pv B E m) (take n strike_grid) ys"
    "stdout s0 = stdout ?s2 @ concat (map (\<lambda>y. [y]) ys)"
    "gbm_put_strike vo pv m (strike_grid ! n) s0 = (Some e, s')" by blast
  from gbm_put_strike_Some[OF *(4)] *(3) have "stdout s' = stdout s @ ys" by simp
  with *(1,2) strike_grid_nonempty(3) show ?thesis by auto
qed

lemma gbm_call_maturity_Some:
  assumes "gbm_inv E B s" and "gbm_call_maturity vo cv m s = (Some e, s')"
  shows "\<exists>j ys. j < 5 \<and> list_all2 (gbm_row vo cv B E m) (take j strike_grid) ys \<and>
           stdout s' = stdout s @ ys"
proof -
  let ?s2 = "s\<lparr>vobj := update_maturity vo m (vobj s)\<rparr>"
  from assms(2) have run: "for_each strike_grid (gbm_call_strike vo cv m) ?s2 = (Some e, s')"
    by (simp add: gbm_call_maturity_def Let_def)
  from assms(1) have start: "gbm_inv E B ?s2"
    by (auto simp: gbm_inv_def)
  have "\<exists>n ys s0. n < length strike_grid \<and>
          list_all2 (gbm_row vo cv B E m) (take n strike_grid) ys \<and>
          gbm_inv E B s0 \<and> stdout s0 = stdout ?s2 @ concat (map (\<lambda>y. [y]) ys) \<and>
          gbm_call_strike vo cv m (strike_grid ! n) s0 = (Some e, s')"
  proof (rule for_each_Some_acc[where I = "gbm_inv E B" and g = stdout
          and h = "\<lambda>y. [y]" and Q = "\<lambda>k s. True", OF run start])
    fix x s s'
    assume "gbm_inv E B s" "gbm_call_strike vo cv m x s = (None, s')"
    from gbm_call_strike_step[OF this]
    show "gbm_inv E B s' \<and> True \<and>
          (\<exists>y. gbm_row vo cv B E m x y \<and> stdout s' = stdout s @ [y])" .
  qed
  then obtain n ys s0 where *: "n < length strike_grid"
    "list_all2 (gbm_row vo cv B E m) (take n strike_grid) ys"
    "stdout s0 = stdout ?s2 @ concat (map (\<lambda>y. [y]) ys)"
    "gbm_call_strike vo cv m (strike_grid ! n) s0 = (Some e, s')" by blast
  from gbm_call_strike_Some[OF *(4)] *(3) have "stdout s' = stdout s @ ys" by simp
  with *(1,2) strike_grid_nonempty(3) show ?thesis by auto
qed

lemma partial_grid_rows:
  assumes n: "n < length maturities" and j: "j < 5"
    and yss: "list_all2 (\<lambda>m ys. list_all2 (R m) strike_grid ys) (take n maturities) yss"
    and ys: "list_all2 (R (maturities ! n)) (take j strike_grid) ys"
  shows "\<exists>i. i < 15 \<and>
           list_all2 (\<lambda>(m, k). R m k) (take i (List.product maturities strike_grid))
             (concat yss @ ys)"
proof -
  have "list_all2 (\<lambda>(m, k). R m k)
          (map (Pair (maturities ! n)) (take j strike_grid)) ys"
    using ys by (simp add: list_all2_map1)
  with list_all2_product_concat[OF yss]
  have "list_all2 (\<lambda>(m, k). R m k)
          (List.product (take n maturities) strike_grid @
           map (Pair (maturities ! n)) (take j strike_grid)) (concat yss @ ys)"
    by (rule list_all2_appendI)
  moreover have "take (n * length strike_grid + j) (List.product maturities strike_grid) =
          List.product (take n maturities) strike_grid @
           map (Pair (maturities ! n)) (take j strike_grid)"
    using n j by (intro take_product) (simp_all add: strike_grid_nonempty)
  moreover have "n * length strike_grid + j < 15"
    using n j by (simp add: strike_grid_nonempty maturities_eq)
  ultimately show ?thesis by metis
qed

lemma gbm_put_benchmark_Some:
  assumes "gbm_put_benchmark vo pv w = (Some e, w')"
  shows "\<exists>n rows. n < 15 \<and> stdout w' = stdout w @ header # rows \<and>
           list_all2 (\<lambda>(m, k). gbm_row vo pv (bsm_option w) (me_option w) m k)
             (take n (List.product maturities strike_grid)) rows"
proof -
  let ?E = "me_option w" and ?B = "bsm_option w"
  from assms have run: "for_each maturities (gbm_put_maturity vo pv) (print header w) = (Some e, w')"
    by (simp add: gbm_put_benchmark_def)
  have "\<exists>n yss s0. n < length maturities \<and>
          list_all2 (\<lambda>m ys. list_all2 (gbm_row vo pv ?B ?E m) strike_grid ys) (take n maturities) yss \<and>
          gbm_inv ?E ?B s0 \<and>
          stdout s0 = stdout (print header w) @ concat (map (\<lambda>ys. ys) yss) \<and>
          gbm_put_maturity vo pv (maturities ! n) s0 = (Some e, w')"
  proof (rule for_each_Some_acc[where I = "gbm_inv ?E ?B" and g = stdout
          and h = "\<lambda>ys. ys" and Q = "\<lambda>m s. True", OF run gbm_inv_start])
    fix x s s'
    assume "gbm_inv ?E ?B s" "gbm_put_maturity vo pv x s = (None, s')"
    from gbm_put_maturity_step[OF this]
    show "gbm_inv ?E ?B s' \<and> True \<and>
          (\<exists>ys. list_all2 (gbm_row vo pv ?B ?E x) strike_grid ys \<and> stdout s' = stdout s @ ys)" .
  qed
  then obtain n yss s0 where n: "n < length maturities"
    and yss: "list_all2 (\<lambda>m ys. list_all2 (gbm_row vo pv ?B ?E m) strike_grid ys)
                (take n maturities) yss"
    and inv: "gbm_inv ?E ?B s0"
    and out: "stdout s0 = stdout (print header w) @ concat yss"
    and fail: "gbm_put_maturity vo pv (maturities ! n) s0 = (Some e, w')"
    by auto
  from gbm_put_maturity_Some[OF inv fail] obtain j ys where j: "j < 5"
    and ys: "list_all2 (gbm_row vo pv ?B ?E (maturities ! n)) (take j strike_grid) ys"
    and out': "stdout w' = stdout s0 @ ys" by blast
  from partial_grid_rows[OF n j yss ys] obtain i where "i < 15"
    "list_all2 (\<lambda>(m, k). gbm_row vo pv ?B ?E m k)
       (take i (List.product maturities strike_grid)) (concat yss @ ys)" by blast
  moreover have "stdout w' = stdout w @ header # (concat yss @ ys)"
    using out out' by (simp add: print_def)
  ultimately show ?thesis by blast
qed

lemma gbm_call_benchmark_Some:
  assumes "gbm_call_benchmark vo cv w = (Some e, w')"
  shows "\<exists>n rows. n < 15 \<and> stdout w' = stdout w @ header # rows \<and>
           list_all2 (\<lambda>(m, k). gbm_row vo cv (bsm_option w) (me_option w) m k)
             (take n (List.product maturities strike_grid)) rows"
proof -
  let ?E = "me_option w" and ?B = "bsm_option w"
  from assms have run: "for_each maturities (gbm_call_maturity vo cv) (print header w) = (Some e, w')"
    by (simp add: gbm_call_benchmark_def)
  have "\<exists>n yss s0. n < length maturities \<and>
          list_all2 (\<lambda>m ys. list_all2 (gbm_row vo cv ?B ?E m) strike_grid ys) (take n maturities) yss \<and>
          gbm_inv ?E ?B s0 \<and>
          stdout s0 = stdout (print header w) @ concat (map (\<lambda>ys. ys) yss) \<and>
          gbm_call_maturity vo cv (maturities ! n) s0 = (Some e, w')"
  proof (rule for_each_Some_acc[where I = "gbm_inv ?E ?B" and g = stdout
          and h = "\<lambda>ys. ys" and Q = "\<lambda>m s. True", OF run gbm_inv_start])
    fix x s s'
    assume "gbm_inv ?E ?B s" "gbm_call_maturity vo cv x s = (None, s')"
    from gbm_call_maturity_step[OF this]
    show "gbm_inv ?E ?B s' \<and> True \<and>
          (\<exists>ys. list_all2 (gbm_row vo cv ?B ?E x) strike_grid ys \<and> stdout s' = stdout s @ ys)" .
  qed
  then obtain n yss s0 where n: "n < length maturities"
    and yss: "list_all2 (\<lambda>m ys. list_all2 (gbm_row vo cv ?B ?E m) strike_grid ys)
                (take n maturities) yss"
    and inv: "gbm_inv ?E ?B s0"
    and out: "stdout s0 = stdout (print header w) @ concat yss"
    and fail: "gbm_call_maturity vo cv (maturities ! n) s0 = (Some e, w')"
    by auto
  from gbm_call_maturity_Some[OF inv fail] obtain j ys where j: "j < 5"
    and ys: "list_all2 (gbm_row vo cv ?B ?E (maturities ! n)) (take j strike_grid) ys"
    and out': "stdout w' = stdout s0 @ ys" by blast
  from partial_grid_rows[OF n j yss ys] obtain i where "i < 15"
    "list_all2 (\<lambda>(m, k). gbm_row vo cv ?B ?E m k)
       (take i (List.product maturities strike_grid)) (concat yss @ ys)" by blast
  moreover have "stdout w' = stdout w @ header # (concat yss @ ys)"
    using out out' by (simp add: print_def)
  ultimately show ?thesis by blast
qed

lemma grid_length: "length (List.product maturities strike_grid) = 15"
  by (simp add: maturities_eq strike_grid_eq)

lemma valuation_benchmarking_rows:
  assumes "valuation_benchmarking vo ff w = (r, w')"
  shows "\<exists>n rows. n \<le> 15 \<and> (r = None \<longleftrightarrow> n = 15) \<and> stdout w' = stdout w @ header # rows \<and>
           list_all2 (\<lambda>(m, k). fourier_row vo ff (me_option w) m k)
             (take n (List.product maturities strike_grid)) rows"
proof (cases r)
  case None
  from valuation_benchmarking_None(3)[OF assms[unfolded None]] grid_length
  have "\<exists>rows. stdout w' = stdout w @ header # rows \<and>
           list_all2 (\<lambda>(m, k). fourier_row vo ff (me_option w) m k)
             (take 15 (List.product maturities strike_grid)) rows" by simp
  with None show ?thesis by blast
next
  case (Some e)
  from valuation_benchmarking_Some[OF assms[unfolded Some]]
  obtain n rows where "n < 15" "stdout w' = stdout w @ header # rows"
    "list_all2 (\<lambda>(m, k). fourier_row vo ff (me_option w) m k)
       (take n (List.product maturities strike_grid)) rows" by blast
  with Some show ?thesis by (intro exI[of _ n] exI[of _ rows]) simp
qed

lemma gbm_put_benchmark_rows:
  assumes "gbm_put_benchmark vo pv w = (r, w')"
  shows "\<exists>n rows. n \<le> 15 \<and> (r = None \<longleftrightarrow> n = 15) \<and> stdout w' = stdout w @ header # rows \<and>
           list_all2 (\<lambda>(m, k). gbm_row vo pv (bsm_option w) (me_option w) m k)
             (take n (List.product maturities strike_grid)) rows"
proof (cases r)
  case None
  from gbm_put_benchmark_None(2)[OF assms[unfolded None]] grid_length
  have "\<exists>rows. stdout w' = stdout w @ header # rows \<and>
           list_all2 (\<lambda>(m, k). gbm_row vo pv (bsm_option w) (me_option w) m k)
             (take 15 (List.product maturities strike_grid)) rows" by simp
  with None show ?thesis by blast
next
  case (Some e)
  from gbm_put_benchmark_Some[OF assms[unfolded Some]]
  obtain n rows where "n < 15" "stdout w' = stdout w @ header # rows"
    "list_all2 (\<lambda>(m, k). gbm_row vo pv (bsm_option w) (me_option w) m k)
       (take n (List.product maturities strike_grid)) rows" by blast
  with Some show ?thesis by (intro exI[of _ n] exI[of _ rows]) simp
qed

lemma gbm_call_benchmark_rows:
  assumes "gbm_call_benchmark vo cv w = (r, w')"
  shows "\<exists>n rows. n \<le> 15 \<and> (r = None \<longleftrightarrow> n = 15) \<and> stdout w' = stdout w @ header # rows \<and>
           list_all2 (\<lambda>(m, k). gbm_row vo cv (bsm_option w) (me_option w) m k)
             (take n (List.product maturities strike_grid)) rows"
proof (cases r)
  case None
  from gbm_call_benchmark_None(2)[OF assms[unfolded None]] grid_length
  have "\<exists>rows. stdout w' = stdout w @ header # rows \<and>
           list_all2 (\<lambda>(m, k). gbm_row vo cv (bsm_option w) (me_option w) m k)
             (take 15 (List.product maturities strike_grid)) rows" by simp
  with None show ?thesis by blast
next
  case (Some e)
  from gbm_call_benchmark_Some[OF assms[unfolded Some]]
  obtain n rows where "n < 15" "stdout w' = stdout w @ header # rows"
    "list_all2 (\<lambda>(m, k). gbm_row vo cv (bsm_option w) (me_option w) m k)
       (take n (List.product maturities strike_grid)) rows" by blast
  with Some show ?thesis by (intro exI[of _ n] exI[of _ rows]) simp
qed

subsection \<open>The loops and the relations between states\<close>

lemma for_each_None_chain:
  "for_each xs body s = (None, s') \<longleftrightarrow> chain (\<lambda>x s t. body x s = (None, t)) xs s s'"
proof (induction xs arbitrary: s)
  case Nil
  then show ?case by auto
next
  case (Cons x xs)
  obtain r t where b: "body x s = (r, t)" by (cases "body x s")
  show ?case
  proof (cases r)
    case None
    with b Cons.IH[of t] show ?thesis by simp
  next
    case (Some e)
    with b show ?thesis by simp
  qed
qed

lemma for_each_Some_chain:
  "for_each xs body s = (Some e, s') \<longleftrightarrow>
     (\<exists>n t. n < length xs \<and> chain (\<lambda>x s t. body x s = (None, t)) (take n xs) s t \<and>
        body (xs ! n) t = (Some e, s'))"
proof (induction xs arbitrary: s)
  case Nil
  then show ?case by simp
next
  case (Cons x xs)
  let ?step = "\<lambda>x s t. body x s = (None, t)"
  obtain r t0 where b: "body x s = (r, t0)" by (cases "body x s")
  show ?case
  proof (cases r)
    case None
    have "(\<exists>n t. n < length (x # xs) \<and> chain ?step (take n (x # xs)) s t \<and>
             body ((x # xs) ! n) t = (Some e, s')) \<longleftrightarrow>
          (\<exists>n t. n < length xs \<and> chain ?step (take n xs) t0 t \<and>
             body (xs ! n) t = (Some e, s'))"
    proof
      assume "\<exists>n t. n < length (x # xs) \<and> chain ?step (take n (x # xs)) s t \<and>
             body ((x # xs) ! n) t = (Some e, s')"
      then obtain n t where n: "n < length (x # xs)" "chain ?step (take n (x # xs)) s t"
        "body ((x # xs) ! n) t = (Some e, s')" by blast
      show "\<exists>n t. n < length xs \<and> chain ?step (take n xs) t0 t \<and>
             body (xs ! n) t = (Some e, s')"
      proof (cases n)
        case 0
        with n b None show ?thesis by simp
      next
        case (Suc n')
        with n b None have "n' < length xs" "chain ?step (take n' xs) t0 t"
          "body (xs ! n') t = (Some e, s')" by auto
        then show ?thesis by blast
      qed
    next
      assume "\<exists>n t. n < length xs \<and> chain ?step (take n xs) t0 t \<and>
             body (xs ! n) t = (Some e, s')"
      then obtain n t where n: "n < length xs" "chain ?step (take n xs) t0 t"
        "body (xs ! n) t = (Some e, s')" by blast
      with b None have "Suc n < length (x # xs)" "chain ?step (take (Suc n) (x # xs)) s t"
        "body ((x # xs) ! Suc n) t = (Some e, s')" by auto
      then show "\<exists>n t. n < length (x # xs) \<and> chain ?step (take n (x # xs)) s t \<and>
             body ((x # xs) ! n) t = (Some e, s')" by blast
    qed
    with b None Cons.IH[of t0] show ?thesis by simp
  next
    case (Some e0)
    have "(\<exists>n t. n < length (x # xs) \<and> chain ?step (take n (x # xs)) s t \<and>
             body ((x # xs) ! n) t = (Some e, s')) \<longleftrightarrow> (e0 = e \<and> t0 = s')"
    proof
      assume "\<exists>n t. n < length (x # xs) \<and> chain ?step (take n (x # xs)) s t \<and>
             body ((x # xs) ! n) t = (Some e, s')"
      then obtain n t where n: "n < length (x # xs)" "chain ?step (take n (x # xs)) s t"
        "body ((x # xs) ! n) t = (Some e, s')" by blast
      show "e0 = e \<and> t0 = s'"
      proof (cases n)
        case 0
        with n b Some show ?thesis by simp
      next
        case (Suc n')
        with n b Some show ?thesis by simp
      qed
    next
      assume "e0 = e \<and> t0 = s'"
      with b Some have "0 < length (x # xs)" "chain ?step (take 0 (x # xs)) s s"
        "body ((x # xs) ! 0) s = (Some e, s')" by auto
      then show "\<exists>n t. n < length (x # xs) \<and> chain ?step (take n (x # xs)) s t \<and>
             body ((x # xs) ! n) t = (Some e, s')" by blast
    qed
    with b Some show ?thesis by simp
  qed
qed

lemma nested_None:
  assumes "\<And>m k s t. body m k s = (None, t) \<longleftrightarrow> point m k s t"
  shows "for_each maturities (\<lambda>m s. for_each strike_grid (body m) (enter m s)) s = (None, s')
         \<longleftrightarrow> grid_run enter point s s'"
  by (simp add: for_each_None_chain grid_run_def assms)

lemma nested_Some:
  assumes "\<And>m k s t. body m k s = (None, t) \<longleftrightarrow> point m k s t"
    and "\<And>m k s e t. body m k s = (Some e, t) \<longleftrightarrow> raises m k s e t"
  shows "for_each maturities (\<lambda>m s. for_each strike_grid (body m) (enter m s)) s = (Some e, s')
         \<longleftrightarrow> grid_run_raises enter point raises s e s'"
  by (simp add: for_each_Some_chain for_each_None_chain grid_run_raises_def assms) blast

lemma vb_strike_None_iff:
  "valuation_benchmarking_strike vo ff m k s = (None, s') \<longleftrightarrow> fourier_point vo ff m k s s'"
  by (auto simp: valuation_benchmarking_strike_def fourier_point_def Let_def print_def
           split: prod.splits sum.splits)

lemma vb_strike_Some_iff:
  "valuation_benchmarking_strike vo ff m k s = (Some e, s') \<longleftrightarrow> fourier_raises vo ff m k s e s'"
  by (auto simp: valuation_benchmarking_strike_def fourier_raises_def Let_def print_def
           split: prod.splits sum.splits)

lemma valuation_benchmarking_nested:
  "valuation_benchmarking vo ff w =
     for_each maturities
       (\<lambda>m s. for_each strike_grid (valuation_benchmarking_strike vo ff m) (fourier_enter vo m s))
       (w\<lparr>stdout := stdout w @ [header]\<rparr>)"
proof -
  have "valuation_benchmarking_maturity vo ff =
        (\<lambda>m s. for_each strike_grid (valuation_benchmarking_strike vo ff m) (fourier_enter vo m s))"
    by (intro ext) (simp add: valuation_benchmarking_maturity_def fourier_enter_def Let_def)
  then show ?thesis by (simp add: valuation_benchmarking_def print_def)
qed

lemma valuation_benchmarking_None_iff:
  "valuation_benchmarking vo ff w = (None, w') \<longleftrightarrow>
     grid_run (fourier_enter vo) (fourier_point vo ff) (w\<lparr>stdout := stdout w @ [header]\<rparr>) w'"
  unfolding valuation_benchmarking_nested by (rule nested_None) (rule vb_strike_None_iff)

lemma valuation_benchmarking_Some_iff:
  "valuation_benchmarking vo ff w = (Some e, w') \<longleftrightarrow>
     grid_run_raises (fourier_enter vo) (fourier_point vo ff) (fourier_raises vo ff)
       (w\<lparr>stdout := stdout w @ [header]\<rparr>) e w'"
  unfolding valuation_benchmarking_nested
  by (rule nested_Some) (rule vb_strike_None_iff, rule vb_strike_Some_iff)

lemma gbm_put_strike_None_iff:
  "gbm_put_strike vo pv m k s = (None, s') \<longleftrightarrow> gbm_put_point vo pv m k s s'"
  by (auto simp: gbm_put_strike_def gbm_put_point_def Let_def print_def
           split: prod.splits sum.splits)

lemma gbm_put_strike_Some_iff:
  "gbm_put_strike vo pv m k s = (Some e, s') \<longleftrightarrow> gbm_put_raises vo pv m k s e s'"
  by (auto simp: gbm_put_strike_def gbm_put_raises_def Let_def print_def
           split: prod.splits sum.splits)

lemma gbm_put_benchmark_nested:
  "gbm_put_benchmark vo pv w =
     for_each maturities
       (\<lambda>m s. for_each strike_grid (gbm_put_strike vo pv m) (gbm_put_enter vo m s))
       (w\<lparr>stdout := stdout w @ [header]\<rparr>)"
proof -
  have "gbm_put_maturity vo pv =
        (\<lambda>m s. for_each strike_grid (gbm_put_strike vo pv m) (gbm_put_enter vo m s))"
    by (intro ext) (simp add: gbm_put_maturity_def gbm_put_enter_def Let_def)
  then show ?thesis by (simp add: gbm_put_benchmark_def print_def)
qed

lemma gbm_put_benchmark_None_iff:
  "gbm_put_benchmark vo pv w = (None, w') \<longleftrightarrow>
     grid_run (gbm_put_enter vo) (gbm_put_point vo pv) (w\<lparr>stdout := stdout w @ [header]\<rparr>) w'"
  unfolding gbm_put_benchmark_nested by (rule nested_None) (rule gbm_put_strike_None_iff)

lemma gbm_put_benchmark_Some_iff:
  "gbm_put_benchmark vo pv w = (Some e, w') \<longleftrightarrow>
     grid_run_raises (gbm_put_enter vo) (gbm_put_point vo pv) (gbm_put_raises vo pv)
       (w\<lparr>stdout := stdout w @ [header]\<rparr>) e w'"
  unfolding gbm_put_benchmark_nested
  by (rule nested_Some) (rule gbm_put_strike_None_iff, rule gbm_put_strike_Some_iff)

lemma gbm_call_strike_None_iff:
  "gbm_call_strike vo cv m k s = (None, s') \<longleftrightarrow> gbm_call_point vo cv m k s s'"
  by (auto simp: gbm_call_strike_def gbm_call_point_def Let_def print_def
           split: prod.splits sum.splits)

lemma gbm_call_strike_Some_iff:
  "gbm_call_strike vo cv m k s = (Some e, s') \<longleftrightarrow> gbm_call_raises vo cv m k s e s'"
  by (auto simp: gbm_call_strike_def gbm_call_raises_def Let_def print_def
           split: prod.splits sum.splits)

lemma gbm_call_benchmark_nested:
  "gbm_call_benchmark vo cv w =
     for_each maturities
       (\<lambda>m s. for_each strike_grid (gbm_call_strike vo cv m) (gbm_call_enter vo m s))
       (w\<lparr>stdout := stdout w @ [header]\<rparr>)"
proof -
  have "gbm_call_maturity vo cv =
        (\<lambda>m s. for_each strike_grid (gbm_call_strike vo cv m) (gbm_call_enter vo m s))"
    by (intro ext) (simp add: gbm_call_maturity_def gbm_call_enter_def Let_def)
  then show ?thesis by (simp add: gbm_call_benchmark_def print_def)
qed

lemma gbm_call_benchmark_None_iff:
  "gbm_call_benchmark vo cv w = (None, w') \<longleftrightarrow>
     grid_run (gbm_call_enter vo) (gbm_call_point vo cv) (w\<lparr>stdout := stdout w @ [header]\<rparr>) w'"
  unfolding gbm_call_benchmark_nested by (rule nested_None) (rule gbm_call_strike_None_iff)

lemma gbm_call_benchmark_Some_iff:
  "gbm_call_benchmark vo cv w = (Some e, w') \<longleftrightarrow>
     grid_run_raises (gbm_call_enter vo) (gbm_call_point vo cv) (gbm_call_raises vo cv)
       (w\<lparr>stdout := stdout w @ [header]\<rparr>) e w'"
  unfolding gbm_call_benchmark_nested
  by (rule nested_Some) (rule gbm_call_strike_None_iff, rule gbm_call_strike_Some_iff)

subsection \<open>Facts shared by the claims\<close>

lemma fourier_row_shape:
  assumes "fourier_row vo ff E m k l"
  shows "\<exists>mcs fou. l = (row_format,
             [Float (real_of_int (days_between m (pricing_date E)) / 365),
              Float k, Float mcs, Float fou, Float (mcs - fou),
              divide_times (mcs - fou) fou 100])"
  using assms unfolding fourier_row_def by blast

lemma gbm_row_shape:
  assumes "gbm_row vo bv B E m k l"
  shows "\<exists>mcs ana. l = (row_format_gbm,
             [Float (real_of_int (days_between m (pricing_date E)) / 365),
              Float k, Float mcs, Float ana, Float (mcs - ana),
              divide_times (mcs - ana) ana 100])"
  using assms unfolding gbm_row_def by blast

lemma list_all2_weaken_prod:
  assumes "list_all2 (\<lambda>(m, k). P m k) xs ys" and "\<And>m k y. P m k y \<Longrightarrow> Q m k y"
  shows "list_all2 (\<lambda>(m, k). Q m k) xs ys"
  using assms(1) by (rule list_all2_mono) (use assms(2) in auto)

lemma benchmark_rows_shape:
  assumes "valuation_benchmarking vo ff w = (r, w') \<and> fmt = row_format \<or>
           gbm_put_benchmark vo bv w = (r, w') \<and> fmt = row_format_gbm \<or>
           gbm_call_benchmark vo bv w = (r, w') \<and> fmt = row_format_gbm"
  shows "\<exists>n rows. n \<le> 15 \<and> (r = None \<longleftrightarrow> n = 15) \<and>
            stdout w' = stdout w @ header # rows \<and>
            list_all2 (\<lambda>(m, k) l. \<exists>mcs fou.
                 l = (fmt, [Float (real_of_int (days_between m (pricing_date (me_option w))) / 365),
                            Float k, Float mcs, Float fou, Float (mcs - fou),
                            divide_times (mcs - fou) fou 100]))
              (take n (List.product maturities strike_grid)) rows"
proof -
  let ?R = "\<lambda>m k l. \<exists>mcs fou.
                 l = (fmt, [Float (real_of_int (days_between m (pricing_date (me_option w))) / 365),
                            Float k, Float mcs, Float fou, Float (mcs - fou),
                            divide_times (mcs - fou) fou 100])"
  show ?thesis
    using assms
  proof (elim disjE conjE)
    assume run: "valuation_benchmarking vo ff w = (r, w')" and fmt: "fmt = row_format"
    from valuation_benchmarking_rows[OF run] obtain n rows where
      *: "n \<le> 15" "r = None \<longleftrightarrow> n = 15" "stdout w' = stdout w @ header # rows"
      "list_all2 (\<lambda>(m, k). fourier_row vo ff (me_option w) m k)
         (take n (List.product maturities strike_grid)) rows" by blast
    from *(4) have "list_all2 (\<lambda>(m, k). ?R m k) (take n (List.product maturities strike_grid)) rows"
      by (rule list_all2_weaken_prod) (use fmt fourier_row_shape in blast)
    with *(1,2,3) show ?thesis by blast
  next
    assume run: "gbm_put_benchmark vo bv w = (r, w')" and fmt: "fmt = row_format_gbm"
    from gbm_put_benchmark_rows[OF run] obtain n rows where
      *: "n \<le> 15" "r = None \<longleftrightarrow> n = 15" "stdout w' = stdout w @ header # rows"
      "list_all2 (\<lambda>(m, k). gbm_row vo bv (bsm_option w) (me_option w) m k)
         (take n (List.product maturities strike_grid)) rows" by blast
    from *(4) have "list_all2 (\<lambda>(m, k). ?R m k) (take n (List.product maturities strike_grid)) rows"
      by (rule list_all2_weaken_prod) (use fmt gbm_row_shape in blast)
    with *(1,2,3) show ?thesis by blast
  next
    assume run: "gbm_call_benchmark vo bv w = (r, w')" and fmt: "fmt = row_format_gbm"
    from gbm_call_benchmark_rows[OF run] obtain n rows where
      *: "n \<le> 15" "r = None \<longleftrightarrow> n = 15" "stdout w' = stdout w @ header # rows"
      "list_all2 (\<lambda>(m, k). gbm_row vo bv (bsm_option w) (me_option w) m k)
         (take n (List.product maturities strike_grid)) rows" by blast
    from *(4) have "list_all2 (\<lambda>(m, k). ?R m k) (take n (List.product maturities strike_grid)) rows"
      by (rule list_all2_weaken_prod) (use fmt gbm_row_shape in blast)
    with *(1,2,3) show ?thesis by blast
  qed
qed


lemma fourier_row_reference:
  assumes "fourier_row vo ff E m k l"
  shows "\<exists>fou. ff (add_constant ''strike'' (Number k) (add_constant ''maturity'' (Date m) E))
                 = Inr fou \<and> snd l ! 3 = Float fou"
  using assms unfolding fourier_row_def by auto

lemma gbm_row_reference:
  assumes "gbm_row vo bv B E m k l"
  shows "\<exists>ana. bv (B\<lparr>bsm_maturity := m, bsm_strike := k\<rparr>) = Inr ana \<and> snd l ! 3 = Float ana"
  using assms unfolding gbm_row_def by auto

lemma failing_strike_eval:
  "valuation_benchmarking_strike counting_object failing_at_100 m k s =
     (if k = 100
      then (Some (Raised ''IntegrationNotConverged''),
            s\<lparr>vobj := Suc (vobj s),
              me_option := add_constant ''strike'' (Number k) (me_option s)\<rparr>)
      else (None,
            s\<lparr>vobj := Suc (vobj s),
              me_option := add_constant ''strike'' (Number k) (me_option s),
              stdout := stdout s @
                [(row_format,
                  [Float (real_of_int (days_between m (pricing_date (me_option s))) / 365),
                   Float k, Float (real (vobj s) + 1), Float k,
                   Float (real (vobj s) + 1 - k),
                   divide_times (real (vobj s) + 1 - k) k 100])]\<rparr>))"
  by (simp add: valuation_benchmarking_strike_def counting_object_def failing_at_100_def
      print_def Let_def)

lemma pricing_date_init: "pricing_date me_option_init = Datetime 2015 1 1"
  by (simp add: me_option_init_def add_environment_def new_market_environment_def)

lemma days_first_maturity: "days_between (Datetime 2015 3 31) (Datetime 2015 1 1) = 89"
  by (simp add: days_between_def toordinal_def days_before_year_def
      days_before_month_def DAYS_BEFORE_MONTH_def is_leap_def)

lemma counting_updates:
  "update_maturity counting_object m v = v" "update_strike counting_object k v = v"
  by (simp_all add: counting_object_def)

lemma failing_run_eval:
  "fst (valuation_benchmarking counting_object failing_at_100 initial_world) =
     Some (Raised ''IntegrationNotConverged'') \<and>
   stdout (snd (valuation_benchmarking counting_object failing_at_100 initial_world)) =
     [header,
      (row_format, [Float (89 / 365), Float 80, Float 1, Float 80, Float (- 79),
                    Float (- 79 / 80 * 100)]),
      (row_format, [Float (89 / 365), Float 90, Float 2, Float 90, Float (- 88),
                    Float (- 88 / 90 * 100)])]"
  by (simp add: valuation_benchmarking_def valuation_benchmarking_maturity_def
      maturities_eq strike_grid_eq failing_strike_eval initial_world_def print_def Let_def
      pricing_date_init days_first_maturity counting_updates divide_times_def
      del: One_nat_def)

lemma first_estimate_raises:
  assumes "fst (present_value vo (add_constant ''maturity'' (Date (Datetime 2015 3 31)) (me_option w))
                 (update_strike vo 80 (update_maturity vo (Datetime 2015 3 31) (vobj w)))) = Inl e"
  shows "fst (valuation_benchmarking vo ff w) = Some e"
proof -
  obtain v where "present_value vo (add_constant ''maturity'' (Date (Datetime 2015 3 31)) (me_option w))
                 (update_strike vo 80 (update_maturity vo (Datetime 2015 3 31) (vobj w))) = (Inl e, v)"
    using assms by (metis prod.collapse)
  then show ?thesis
    by (simp add: valuation_benchmarking_def valuation_benchmarking_maturity_def
        valuation_benchmarking_strike_def maturities_eq strike_grid_eq print_def Let_def)
qed

lemma run_cells_Cons:
  assumes "cell w = (None, w')"
  shows "run_cells (cell # cells) w = run_cells cells w'"
  using assms by (simp add: run_cells_def)

lemma constants_init:
  "constants me_option_init ''strike'' = Some (Number 100)"
  "constants me_option_init ''maturity'' = Some (Date (Datetime 2015 12 31))"
  by (simp_all add: me_option_init_def add_environment_def add_constant_def add_curve_def
      me_risk_factors_def val_env_def new_market_environment_def map_add_def)

lemma rows_first_column:
  assumes "list_all2 (\<lambda>(m, k) l. \<exists>mcs fou.
         l = (fmt, [Float (f m), Float k, Float mcs, Float fou, Float (mcs - fou),
                    divide_times (mcs - fou) fou 100])) xs rows"
  shows "map (\<lambda>l. hd (snd l)) rows = map (\<lambda>(m, k). Float (f m)) xs"
  using assms
proof (induction rule: list_all2_induct)
  case Nil
  then show ?case by simp
next
  case (Cons x xs y ys)
  obtain m k where x: "x = (m, k)" by (cases x)
  with Cons.hyps(1) obtain mcs fou where
    "y = (fmt, [Float (f m), Float k, Float mcs, Float fou, Float (mcs - fou),
                    divide_times (mcs - fou) fou 100])" by auto
  then have "hd (snd y) = Float (f m)" by simp
  with Cons.IH x show ?case by simp
qed

lemma detector_strike_eval:
  "valuation_benchmarking_strike stale_strike_detector strike_price m k s =
     (if constants (me_option s) ''strike'' = Some (Number 120)
      then (Some (Raised ''strike is 120''), s)
      else (None,
            s\<lparr>me_option := add_constant ''strike'' (Number k) (me_option s),
              stdout := stdout s @
                [(row_format,
                  [Float (real_of_int (days_between m (pricing_date (me_option s))) / 365),
                   Float k, Float 1, Float k, Float (1 - k), divide_times (1 - k) k 100])]\<rparr>))"
  by (simp add: valuation_benchmarking_strike_def stale_strike_detector_def strike_price_def
      print_def Let_def)

lemma detector_updates:
  "update_maturity stale_strike_detector m v = v" "update_strike stale_strike_detector k v = v"
  by (simp_all add: stale_strike_detector_def)

lemma detector_run_eval:
  "fst (valuation_benchmarking stale_strike_detector strike_price initial_world) =
     Some (Raised ''strike is 120'') \<and>
   length (stdout (snd (valuation_benchmarking stale_strike_detector strike_price initial_world))) = 6"
  by (simp add: valuation_benchmarking_def valuation_benchmarking_maturity_def
      maturities_eq strike_grid_eq detector_strike_eval initial_world_def print_def Let_def
      constants_init detector_updates del: One_nat_def)



lemma divide_times_100:
  "divide_times x y 100 =
     (if y = 0 then (if 0 < x then PosInf else if x < 0 then NegInf else NaN)
      else Float (x / y * 100))"
  by (simp add: divide_times_def)


section \<open>The claims\<close>


text \<open>
  Claim C1 (put-call parity). Whenever the pricer of the specification returns a put
  price, it returns a call price for the same model, environment, strike and maturity, and
  call minus put equals \<open>S0 - K exp (- r T)\<close>; the difference is exact over the reals, hence
  within the tolerance \<open>1e-6\<close>. This holds for each of the four models and for every
  transform integrator.
\<close>

theorem put_call_parity:
  assumes "fourier_price integrate params env (spec\<lparr>os_right := Put\<rparr>) = Inr put"
  shows "\<exists>call. fourier_price integrate params env (spec\<lparr>os_right := Call\<rparr>) = Inr call \<and>
           call - put =
             pe_spot env - os_strike spec * exp (- pe_short_rate env * time_to_maturity env spec) \<and>
           \<bar>(call - put) -
             (pe_spot env - os_strike spec * exp (- pe_short_rate env * time_to_maturity env spec))\<bar>
             \<le> 1 / 10 ^ 6"
  using assms
  by (auto simp: fourier_price_def Let_def time_to_maturity_def
           split: if_splits sum.splits option_right.splits)

theorem put_call_parity_witness:
  "fourier_price (\<lambda>params S0 K r T. Inr 0) (JumpDiffusion 0.2 0.4 (- 0.6) 0.2)
     \<lparr>pe_spot = 100, pe_pricing_date = Datetime 2015 1 1, pe_short_rate = 0\<rparr>
     \<lparr>os_strike = 90, os_maturity = Datetime 2015 3 31, os_right = Put\<rparr> = Inr 100 \<and>
   (\<exists>call. fourier_price (\<lambda>params S0 K r T. Inr 0) (JumpDiffusion 0.2 0.4 (- 0.6) 0.2)
     \<lparr>pe_spot = 100, pe_pricing_date = Datetime 2015 1 1, pe_short_rate = 0\<rparr>
     \<lparr>os_strike = 90, os_maturity = Datetime 2015 3 31, os_right = Call\<rparr> = Inr call \<and>
     call - 100 = 10)"
proof -
  have h: "fourier_price (\<lambda>params S0 K r T. Inr 0) (JumpDiffusion 0.2 0.4 (- 0.6) 0.2)
     \<lparr>pe_spot = 100, pe_pricing_date = Datetime 2015 1 1, pe_short_rate = 0\<rparr>
     (\<lparr>os_strike = 90, os_maturity = Datetime 2015 3 31, os_right = Put\<rparr>\<lparr>os_right := Put\<rparr>)
     = Inr 100"
    by (simp add: fourier_price_def fourier_put_def time_to_maturity_def days_between_def
        toordinal_def days_before_year_def days_before_month_def DAYS_BEFORE_MONTH_def
        is_leap_def)
  from put_call_parity[OF h] h show ?thesis by simp
qed

text \<open>
  Claim C2, as stated, fails. With a pricing function that raises at the strike 100, the
  run over the grid ends with that exception at the third grid point: the header and the
  rows of the strikes 80 and 90 of the first maturity have been printed, there is no row
  for the failing point and none for the twelve grid points after it.
\<close>

theorem failing_price_aborts_run:
  "fst (valuation_benchmarking counting_object failing_at_100 initial_world) =
     Some (Raised ''IntegrationNotConverged'') \<and>
   stdout (snd (valuation_benchmarking counting_object failing_at_100 initial_world)) =
     [header,
      (row_format, [Float (89 / 365), Float 80, Float 1, Float 80, Float (- 79),
                    Float (- 79 / 80 * 100)]),
      (row_format, [Float (89 / 365), Float 90, Float 2, Float 90, Float (- 88),
                    Float (- 88 / 90 * 100)])]"
  by (rule failing_run_eval)

text \<open>
  Claim C2, amended. \<^verbatim>\<open>valuation_benchmarking\<close> has no handler. A run ends with the
  exception \<open>e\<close> exactly when some grid point is reached after every grid point before it
  has succeeded and, at that point, \<open>present_value\<close> raises \<open>e\<close>, or it returns and the pricing
  function raises \<open>e\<close>; the state left is the one at the raise. (The methods \<^verbatim>\<open>update\<close> and
  \<^verbatim>\<open>add_constant\<close>, whose code is not part of the notebook, do not raise in this model, and
  neither does the floating-point division.) What has been printed then
  is the header followed by one row for each grid point before the failing one, in grid
  order: there is no row for the failing grid point and none for a later one.
\<close>

theorem exception_ends_run:
  "(valuation_benchmarking vo ff w = (Some e, w') \<longleftrightarrow>
      grid_run_raises (fourier_enter vo) (fourier_point vo ff) (fourier_raises vo ff)
        (w\<lparr>stdout := stdout w @ [header]\<rparr>) e w') \<and>
   (valuation_benchmarking vo ff w = (Some e, w') \<longrightarrow>
      (\<exists>n rows. n < 15 \<and> stdout w' = stdout w @ header # rows \<and>
         list_all2 (\<lambda>(m, k). fourier_row vo ff (me_option w) m k)
           (take n (List.product maturities strike_grid)) rows))"
  using valuation_benchmarking_Some_iff[of vo ff w e w'] valuation_benchmarking_Some[of vo ff w e w']
  by blast

theorem exception_ends_run_witness:
  "valuation_benchmarking counting_object failing_at_100 initial_world =
     (Some (Raised ''IntegrationNotConverged''),
      snd (valuation_benchmarking counting_object failing_at_100 initial_world)) \<and>
   grid_run_raises (fourier_enter counting_object) (fourier_point counting_object failing_at_100)
     (fourier_raises counting_object failing_at_100)
     (initial_world\<lparr>stdout := stdout initial_world @ [header]\<rparr>) (Raised ''IntegrationNotConverged'')
     (snd (valuation_benchmarking counting_object failing_at_100 initial_world)) \<and>
   (\<exists>n rows. n < 15 \<and>
      stdout (snd (valuation_benchmarking counting_object failing_at_100 initial_world)) =
        stdout initial_world @ header # rows \<and>
      list_all2 (\<lambda>(m, k). fourier_row counting_object failing_at_100 (me_option initial_world) m k)
        (take n (List.product maturities strike_grid)) rows)"
proof -
  let ?X = "valuation_benchmarking counting_object failing_at_100 initial_world"
  have h: "?X = (Some (Raised ''IntegrationNotConverged''), snd ?X)"
    using failing_run_eval by (simp add: prod_eq_iff)
  from exception_ends_run[of counting_object failing_at_100 initial_world
      "Raised ''IntegrationNotConverged''" "snd ?X"] h
  show ?thesis by blast
qed

text \<open>
  Claim C3, as stated, fails: not every grid point gets a row. With a valuation object
  whose estimate raises when \<^verbatim>\<open>me_option\<close> holds the strike 120, the run prints the five
  rows of the first maturity and ends with the exception at the first strike of the second
  maturity; ten of the fifteen grid points have no row.
\<close>

theorem stale_strike_stops_rows:
  "fst (valuation_benchmarking stale_strike_detector strike_price initial_world) =
     Some (Raised ''strike is 120'') \<and>
   length (stdout (snd (valuation_benchmarking stale_strike_detector strike_price initial_world))) = 6"
  by (rule detector_run_eval)

text \<open>
  Claim C3, amended (one row per grid point reached). Each of the three benchmarks does
  exactly this. It returns when, for every grid point in grid order, \<open>present_value\<close>
  (called on the object after the update of the strike) returns an estimate \<open>mcs\<close> and the
  reference pricing call for the maturity and strike of the point returns a price \<open>fou\<close>;
  it then has printed, for that point, exactly one row holding in this order the year
  fraction, the strike, \<open>mcs\<close>, \<open>fou\<close>, \<open>mcs - fou\<close> and \<open>(mcs - fou) / fou * 100\<close>, the last as
  floating-point division gives it (\<^verbatim>\<open>inf\<close>, \<^verbatim>\<open>-inf\<close> or \<^verbatim>\<open>nan\<close> when \<open>fou\<close> is zero). It ends with an
  exception when one of the two calls raises at a grid point, and has then printed the
  rows of the grid points before that one only. So the rows printed are those of the first
  \<open>n\<close> grid points, with \<open>n\<close> = 15 exactly when the run returns. The formats print 3, 3, 4,
  4, 4 and 3 decimals in \<^verbatim>\<open>valuation_benchmarking\<close> and 3, 3, 4, 4, 4 and 2 decimals in the
  two loops of the geometric Brownian motion benchmark.
\<close>

theorem rows_of_a_benchmark:
  "(valuation_benchmarking vo ff w = (None, w') \<longleftrightarrow>
      grid_run (fourier_enter vo) (fourier_point vo ff) (w\<lparr>stdout := stdout w @ [header]\<rparr>) w') \<and>
   (valuation_benchmarking vo ff w = (Some e, w') \<longleftrightarrow>
      grid_run_raises (fourier_enter vo) (fourier_point vo ff) (fourier_raises vo ff)
        (w\<lparr>stdout := stdout w @ [header]\<rparr>) e w') \<and>
   (gbm_put_benchmark vo bv w = (None, w') \<longleftrightarrow>
      grid_run (gbm_put_enter vo) (gbm_put_point vo bv) (w\<lparr>stdout := stdout w @ [header]\<rparr>) w') \<and>
   (gbm_put_benchmark vo bv w = (Some e, w') \<longleftrightarrow>
      grid_run_raises (gbm_put_enter vo) (gbm_put_point vo bv) (gbm_put_raises vo bv)
        (w\<lparr>stdout := stdout w @ [header]\<rparr>) e w') \<and>
   (gbm_call_benchmark vo bv w = (None, w') \<longleftrightarrow>
      grid_run (gbm_call_enter vo) (gbm_call_point vo bv) (w\<lparr>stdout := stdout w @ [header]\<rparr>) w') \<and>
   (gbm_call_benchmark vo bv w = (Some e, w') \<longleftrightarrow>
      grid_run_raises (gbm_call_enter vo) (gbm_call_point vo bv) (gbm_call_raises vo bv)
        (w\<lparr>stdout := stdout w @ [header]\<rparr>) e w') \<and>
   (valuation_benchmarking vo ff w = (r, w') \<and> fmt = row_format \<or>
    gbm_put_benchmark vo bv w = (r, w') \<and> fmt = row_format_gbm \<or>
    gbm_call_benchmark vo bv w = (r, w') \<and> fmt = row_format_gbm
    \<longrightarrow> (\<exists>n rows. n \<le> 15 \<and> (r = None \<longleftrightarrow> n = 15) \<and>
         stdout w' = stdout w @ header # rows \<and>
         list_all2 (\<lambda>(m, k) l. \<exists>mcs fou.
              l = (fmt, [Float (real_of_int (days_between m (pricing_date (me_option w))) / 365),
                         Float k, Float mcs, Float fou, Float (mcs - fou),
                         divide_times (mcs - fou) fou 100]))
           (take n (List.product maturities strike_grid)) rows)) \<and>
   conversions row_format =
     [(4, Some 3, CHR ''f''), (7, Some 3, CHR ''f''), (7, Some 4, CHR ''f''),
      (7, Some 4, CHR ''f''), (7, Some 4, CHR ''f''), (7, Some 3, CHR ''f'')] \<and>
   conversions row_format_gbm =
     [(4, Some 3, CHR ''f''), (7, Some 3, CHR ''f''), (7, Some 4, CHR ''f''),
      (7, Some 4, CHR ''f''), (7, Some 4, CHR ''f''), (7, Some 2, CHR ''f'')] \<and>
   divide_times x y 100 =
     (if y = 0 then (if 0 < x then PosInf else if x < 0 then NegInf else NaN)
      else Float (x / y * 100))"
proof -
  have shape: "(valuation_benchmarking vo ff w = (r, w') \<and> fmt = row_format \<or>
    gbm_put_benchmark vo bv w = (r, w') \<and> fmt = row_format_gbm \<or>
    gbm_call_benchmark vo bv w = (r, w') \<and> fmt = row_format_gbm
    \<longrightarrow> (\<exists>n rows. n \<le> 15 \<and> (r = None \<longleftrightarrow> n = 15) \<and>
         stdout w' = stdout w @ header # rows \<and>
         list_all2 (\<lambda>(m, k) l. \<exists>mcs fou.
              l = (fmt, [Float (real_of_int (days_between m (pricing_date (me_option w))) / 365),
                         Float k, Float mcs, Float fou, Float (mcs - fou),
                         divide_times (mcs - fou) fou 100]))
           (take n (List.product maturities strike_grid)) rows))"
    using benchmark_rows_shape[of vo ff w r w' fmt bv] by blast
  have c1: "conversions row_format =
     [(4, Some 3, CHR ''f''), (7, Some 3, CHR ''f''), (7, Some 4, CHR ''f''),
      (7, Some 4, CHR ''f''), (7, Some 4, CHR ''f''), (7, Some 3, CHR ''f'')]"
    by (simp add: conversions_def row_format_def is_digit_def digit_def)
  have c2: "conversions row_format_gbm =
     [(4, Some 3, CHR ''f''), (7, Some 3, CHR ''f''), (7, Some 4, CHR ''f''),
      (7, Some 4, CHR ''f''), (7, Some 4, CHR ''f''), (7, Some 2, CHR ''f'')]"
    by (simp add: conversions_def row_format_gbm_def is_digit_def digit_def)
  from valuation_benchmarking_None_iff[of vo ff w w'] valuation_benchmarking_Some_iff[of vo ff w e w']
    gbm_put_benchmark_None_iff[of vo bv w w'] gbm_put_benchmark_Some_iff[of vo bv w e w']
    gbm_call_benchmark_None_iff[of vo bv w w'] gbm_call_benchmark_Some_iff[of vo bv w e w']
    shape c1 c2 divide_times_100[of x y]
  show ?thesis by (intro conjI)
qed

theorem rows_of_a_benchmark_witness:
  "valuation_benchmarking counting_object strike_price initial_world =
     (None, snd (valuation_benchmarking counting_object strike_price initial_world)) \<and>
   gbm_put_benchmark counting_object bsm_strike_price initial_world =
     (None, snd (gbm_put_benchmark counting_object bsm_strike_price initial_world)) \<and>
   gbm_call_benchmark counting_object bsm_strike_price initial_world =
     (None, snd (gbm_call_benchmark counting_object bsm_strike_price initial_world)) \<and>
   grid_run (fourier_enter counting_object) (fourier_point counting_object strike_price)
     (initial_world\<lparr>stdout := stdout initial_world @ [header]\<rparr>)
     (snd (valuation_benchmarking counting_object strike_price initial_world)) \<and>
   grid_run (gbm_put_enter counting_object) (gbm_put_point counting_object bsm_strike_price)
     (initial_world\<lparr>stdout := stdout initial_world @ [header]\<rparr>)
     (snd (gbm_put_benchmark counting_object bsm_strike_price initial_world)) \<and>
   grid_run (gbm_call_enter counting_object) (gbm_call_point counting_object bsm_strike_price)
     (initial_world\<lparr>stdout := stdout initial_world @ [header]\<rparr>)
     (snd (gbm_call_benchmark counting_object bsm_strike_price initial_world)) \<and>
   (\<exists>rows. length rows = 15 \<and>
      stdout (snd (gbm_put_benchmark counting_object bsm_strike_price initial_world)) =
        stdout initial_world @ header # rows)"
proof -
  let ?X = "valuation_benchmarking counting_object strike_price initial_world"
  let ?Y = "gbm_put_benchmark counting_object bsm_strike_price initial_world"
  let ?Z = "gbm_call_benchmark counting_object bsm_strike_price initial_world"
  have x: "?X = (None, snd ?X)"
    using counting_run_None[of initial_world] by (simp add: prod_eq_iff)
  have y: "?Y = (None, snd ?Y)"
    using counting_gbm_put_None[of initial_world] by (simp add: prod_eq_iff)
  have z: "?Z = (None, snd ?Z)"
    using counting_gbm_call_None[of initial_world] by (simp add: prod_eq_iff)
  from rows_of_a_benchmark[where vo = counting_object and ff = strike_price
      and w = initial_world and w' = "snd ?X"] x
  have 1: "grid_run (fourier_enter counting_object) (fourier_point counting_object strike_price)
     (initial_world\<lparr>stdout := stdout initial_world @ [header]\<rparr>) (snd ?X)" by blast
  from rows_of_a_benchmark[where vo = counting_object and bv = bsm_strike_price
      and w = initial_world and w' = "snd ?Y"] y
  have 2: "grid_run (gbm_put_enter counting_object) (gbm_put_point counting_object bsm_strike_price)
     (initial_world\<lparr>stdout := stdout initial_world @ [header]\<rparr>) (snd ?Y)" by blast
  from rows_of_a_benchmark[where vo = counting_object and bv = bsm_strike_price
      and w = initial_world and w' = "snd ?Z"] z
  have 3: "grid_run (gbm_call_enter counting_object) (gbm_call_point counting_object bsm_strike_price)
     (initial_world\<lparr>stdout := stdout initial_world @ [header]\<rparr>) (snd ?Z)" by blast
  from rows_of_a_benchmark[where vo = counting_object and bv = bsm_strike_price
      and w = initial_world and w' = "snd ?Y" and r = None and fmt = row_format_gbm] y
  obtain n rows where "n = 15" "stdout (snd ?Y) = stdout initial_world @ header # rows"
    "list_all2 (\<lambda>(m, k) l. \<exists>mcs fou.
              l = (row_format_gbm,
                   [Float (real_of_int (days_between m (pricing_date (me_option initial_world))) / 365),
                    Float k, Float mcs, Float fou, Float (mcs - fou),
                    divide_times (mcs - fou) fou 100]))
           (take n (List.product maturities strike_grid)) rows"
    by blast
  with grid_length have 4: "\<exists>rows. length rows = 15 \<and>
      stdout (snd ?Y) = stdout initial_world @ header # rows"
    by (auto dest: list_all2_lengthD)
  from x y z 1 2 3 4 show ?thesis by (intro conjI)
qed




text \<open>
  Claim C8 (mutation of the shared environment). When \<^verbatim>\<open>valuation_benchmarking\<close> returns,
  \<^verbatim>\<open>me_option\<close> is the environment it started with in which \<^verbatim>\<open>'maturity'\<close> holds the last
  maturity of the grid, 2015-07-31, and \<^verbatim>\<open>'strike'\<close> the last strike, 120; this differs from
  the environment the notebook constructed (strike 100, maturity 2015-12-31). The cells
  that follow run on this state. In particular the first Monte Carlo estimate of a
  following run is computed while \<^verbatim>\<open>me_option\<close> still holds the strike 120: if that call
  raises, the run ends with its exception.
\<close>

theorem me_option_mutated_in_place:
  assumes "valuation_benchmarking vo ff w = (None, w')"
  shows "me_option w' =
           add_constant ''strike'' (Number (last strike_grid))
             (add_constant ''maturity'' (Date (last maturities)) (me_option w)) \<and>
         last strike_grid = 120 \<and> last maturities = Datetime 2015 7 31 \<and>
         constants (me_option w') ''strike'' = Some (Number 120) \<and>
         constants (me_option w') ''maturity'' = Some (Date (Datetime 2015 7 31)) \<and>
         constants me_option_init ''strike'' = Some (Number 100) \<and>
         constants me_option_init ''maturity'' = Some (Date (Datetime 2015 12 31)) \<and>
         me_option w' \<noteq> me_option_init \<and>
         run_cells (valuation_benchmarking vo ff # cells) w = run_cells cells w' \<and>
         constants (add_constant ''maturity'' (Date (Datetime 2015 3 31)) (me_option w')) ''strike''
           = Some (Number 120) \<and>
         (fst (present_value vo2
                 (add_constant ''maturity'' (Date (Datetime 2015 3 31)) (me_option w'))
                 (update_strike vo2 80 (update_maturity vo2 (Datetime 2015 3 31) (vobj w'))))
            = Inl e \<longrightarrow>
          fst (valuation_benchmarking vo2 ff2 w') = Some e)"
proof -
  note me = valuation_benchmarking_None(1)[OF assms]
  have l1: "last strike_grid = 120" by (simp add: strike_grid_eq)
  have l2: "last maturities = Datetime 2015 7 31" by (simp add: maturities_eq)
  from me l1 l2 have a: "me_option w' =
           add_constant ''strike'' (Number (last strike_grid))
             (add_constant ''maturity'' (Date (last maturities)) (me_option w))" by simp
  from me have s: "constants (me_option w') ''strike'' = Some (Number 120)"
    and m: "constants (me_option w') ''maturity'' = Some (Date (Datetime 2015 7 31))"
    by simp_all
  from m constants_init(2) have ne: "me_option w' \<noteq> me_option_init" by auto
  from s have s': "constants (add_constant ''maturity'' (Date (Datetime 2015 3 31)) (me_option w'))
      ''strike'' = Some (Number 120)" by simp
  have obs: "fst (present_value vo2
                 (add_constant ''maturity'' (Date (Datetime 2015 3 31)) (me_option w'))
                 (update_strike vo2 80 (update_maturity vo2 (Datetime 2015 3 31) (vobj w'))))
            = Inl e \<longrightarrow>
          fst (valuation_benchmarking vo2 ff2 w') = Some e"
    using first_estimate_raises by blast
  from a l1 l2 s m constants_init ne run_cells_Cons[of "valuation_benchmarking vo ff" w w' cells, OF assms] s' obs
  show ?thesis by (intro conjI)
qed

theorem me_option_mutated_in_place_witness:
  "valuation_benchmarking counting_object strike_price initial_world =
     (None, snd (valuation_benchmarking counting_object strike_price initial_world)) \<and>
   me_option initial_world = me_option_init \<and>
   constants (me_option (snd (valuation_benchmarking counting_object strike_price initial_world)))
     ''strike'' = Some (Number 120) \<and>
   constants (me_option (snd (valuation_benchmarking counting_object strike_price initial_world)))
     ''maturity'' = Some (Date (Datetime 2015 7 31)) \<and>
   fst (valuation_benchmarking stale_strike_detector strike_price
          (snd (valuation_benchmarking counting_object strike_price initial_world))) =
     Some (Raised ''strike is 120'')"
proof -
  let ?X = "valuation_benchmarking counting_object strike_price initial_world"
  have h: "?X = (None, snd ?X)"
    using counting_run_None[of initial_world] by (simp add: prod_eq_iff)
  note t = me_option_mutated_in_place[OF h, where ?vo2.0 = stale_strike_detector
      and ?ff2.0 = strike_price and e = "Raised ''strike is 120''"]
  from t have s: "constants (add_constant ''maturity'' (Date (Datetime 2015 3 31)) (me_option (snd ?X)))
      ''strike'' = Some (Number 120)" by blast
  then have "fst (present_value stale_strike_detector
                 (add_constant ''maturity'' (Date (Datetime 2015 3 31)) (me_option (snd ?X)))
                 (update_strike stale_strike_detector 80
                    (update_maturity stale_strike_detector (Datetime 2015 3 31) (vobj (snd ?X)))))
            = Inl (Raised ''strike is 120'')"
    by (simp add: stale_strike_detector_def)
  with t have 1: "fst (valuation_benchmarking stale_strike_detector strike_price (snd ?X)) =
     Some (Raised ''strike is 120'')" by blast
  have 3: "me_option initial_world = me_option_init" by (simp add: initial_world_def)
  from h 3 t 1 show ?thesis by blast
qed

text \<open>
  Claim C9 (the reference column of the geometric Brownian motion benchmark). The cell of
  the European put returns exactly when, at every grid point, the Monte Carlo estimate of
  \<^verbatim>\<open>euro_put_gbm\<close> and the value of \<^verbatim>\<open>put_value\<close> of \<^verbatim>\<open>bsm_option\<close>, with the maturity and
  strike of the point assigned, are obtained, and it prints that value in the fourth
  column; it ends with an exception exactly when one of these two calls raises at a grid
  point reached. Likewise the cell of the call with \<^verbatim>\<open>euro_call_gbm\<close> and \<^verbatim>\<open>call_value\<close>. The six
  other cells do the same with the valuation objects of the jump diffusion, the stochastic
  volatility and the stochastic volatility jump diffusion model and the functions
  \<^verbatim>\<open>M76_put_value\<close>, \<^verbatim>\<open>M76_call_value\<close>, \<^verbatim>\<open>H93_put_value\<close>, \<^verbatim>\<open>H93_call_value\<close>, \<^verbatim>\<open>B96_put_value\<close>
  and \<^verbatim>\<open>B96_call_value\<close>, in this order and this pairing, each called on the environment
  holding the maturity and strike of the point. The two cells of the geometric Brownian
  motion benchmark are the same whatever the six Fourier-based functions are, and the six
  others are the same whatever the two methods of \<^verbatim>\<open>bsm_option\<close> are. The fourth column is
  labelled \<^verbatim>\<open>fou\<close> in every table.
\<close>

theorem reference_column:
  "map (\<lambda>cell. cell w = (None, w')) (gbm_benchmarks lib) =
     [grid_run (gbm_put_enter (euro_put_gbm lib)) (gbm_put_point (euro_put_gbm lib) (put_value lib)) (w\<lparr>stdout := stdout w @ [header]\<rparr>) w',
      grid_run (gbm_call_enter (euro_call_gbm lib)) (gbm_call_point (euro_call_gbm lib) (call_value lib)) (w\<lparr>stdout := stdout w @ [header]\<rparr>) w'] \<and>
   map (\<lambda>cell. cell w = (None, w')) (fourier_benchmarks lib) =
     [grid_run (fourier_enter (euro_put_jd lib)) (fourier_point (euro_put_jd lib) (M76_put_value lib)) (w\<lparr>stdout := stdout w @ [header]\<rparr>) w',
      grid_run (fourier_enter (euro_call_jd lib)) (fourier_point (euro_call_jd lib) (M76_call_value lib)) (w\<lparr>stdout := stdout w @ [header]\<rparr>) w',
      grid_run (fourier_enter (euro_put_sv lib)) (fourier_point (euro_put_sv lib) (H93_put_value lib)) (w\<lparr>stdout := stdout w @ [header]\<rparr>) w',
      grid_run (fourier_enter (euro_call_sv lib)) (fourier_point (euro_call_sv lib) (H93_call_value lib)) (w\<lparr>stdout := stdout w @ [header]\<rparr>) w',
      grid_run (fourier_enter (euro_put_svjd lib)) (fourier_point (euro_put_svjd lib) (B96_put_value lib)) (w\<lparr>stdout := stdout w @ [header]\<rparr>) w',
      grid_run (fourier_enter (euro_call_svjd lib)) (fourier_point (euro_call_svjd lib) (B96_call_value lib)) (w\<lparr>stdout := stdout w @ [header]\<rparr>) w'] \<and>
   map (\<lambda>cell. cell w = (Some e, w')) (gbm_benchmarks lib) =
     [grid_run_raises (gbm_put_enter (euro_put_gbm lib)) (gbm_put_point (euro_put_gbm lib) (put_value lib)) (gbm_put_raises (euro_put_gbm lib) (put_value lib)) (w\<lparr>stdout := stdout w @ [header]\<rparr>) e w',
      grid_run_raises (gbm_call_enter (euro_call_gbm lib)) (gbm_call_point (euro_call_gbm lib) (call_value lib)) (gbm_call_raises (euro_call_gbm lib) (call_value lib)) (w\<lparr>stdout := stdout w @ [header]\<rparr>) e w'] \<and>
   map (\<lambda>cell. cell w = (Some e, w')) (fourier_benchmarks lib) =
     [grid_run_raises (fourier_enter (euro_put_jd lib)) (fourier_point (euro_put_jd lib) (M76_put_value lib)) (fourier_raises (euro_put_jd lib) (M76_put_value lib)) (w\<lparr>stdout := stdout w @ [header]\<rparr>) e w',
      grid_run_raises (fourier_enter (euro_call_jd lib)) (fourier_point (euro_call_jd lib) (M76_call_value lib)) (fourier_raises (euro_call_jd lib) (M76_call_value lib)) (w\<lparr>stdout := stdout w @ [header]\<rparr>) e w',
      grid_run_raises (fourier_enter (euro_put_sv lib)) (fourier_point (euro_put_sv lib) (H93_put_value lib)) (fourier_raises (euro_put_sv lib) (H93_put_value lib)) (w\<lparr>stdout := stdout w @ [header]\<rparr>) e w',
      grid_run_raises (fourier_enter (euro_call_sv lib)) (fourier_point (euro_call_sv lib) (H93_call_value lib)) (fourier_raises (euro_call_sv lib) (H93_call_value lib)) (w\<lparr>stdout := stdout w @ [header]\<rparr>) e w',
      grid_run_raises (fourier_enter (euro_put_svjd lib)) (fourier_point (euro_put_svjd lib) (B96_put_value lib)) (fourier_raises (euro_put_svjd lib) (B96_put_value lib)) (w\<lparr>stdout := stdout w @ [header]\<rparr>) e w',
      grid_run_raises (fourier_enter (euro_call_svjd lib)) (fourier_point (euro_call_svjd lib) (B96_call_value lib)) (fourier_raises (euro_call_svjd lib) (B96_call_value lib)) (w\<lparr>stdout := stdout w @ [header]\<rparr>) e w'] \<and>
   gbm_benchmarks (lib\<lparr>M76_put_value := f1, M76_call_value := f2, H93_put_value := f3,
        H93_call_value := f4, B96_put_value := f5, B96_call_value := f6\<rparr>) = gbm_benchmarks lib \<and>
   fourier_benchmarks (lib\<lparr>put_value := p, call_value := c\<rparr>) = fourier_benchmarks lib \<and>
   snd header ! 3 = Str ''fou'' \<and>
   (gbm_put_benchmark vo bv w = (None, w') \<or> gbm_call_benchmark vo bv w = (None, w') \<longrightarrow>
      (\<exists>rows. stdout w' = stdout w @ header # rows \<and>
         list_all2 (\<lambda>(m, k) l. \<exists>ana.
              bv ((bsm_option w)\<lparr>bsm_maturity := m, bsm_strike := k\<rparr>) = Inr ana \<and>
              snd l ! 3 = Float ana)
           (List.product maturities strike_grid) rows)) \<and>
   (valuation_benchmarking vo ff w = (None, w') \<longrightarrow>
      (\<exists>rows. stdout w' = stdout w @ header # rows \<and>
         list_all2 (\<lambda>(m, k) l. \<exists>fou.
              ff (add_constant ''strike'' (Number k)
                   (add_constant ''maturity'' (Date m) (me_option w))) = Inr fou \<and>
              snd l ! 3 = Float fou)
           (List.product maturities strike_grid) rows))"
proof -
  have a: "map (\<lambda>cell. cell w = (None, w')) (gbm_benchmarks lib) =
     [grid_run (gbm_put_enter (euro_put_gbm lib)) (gbm_put_point (euro_put_gbm lib) (put_value lib)) (w\<lparr>stdout := stdout w @ [header]\<rparr>) w',
      grid_run (gbm_call_enter (euro_call_gbm lib)) (gbm_call_point (euro_call_gbm lib) (call_value lib)) (w\<lparr>stdout := stdout w @ [header]\<rparr>) w']"
    by (simp add: gbm_benchmarks_def gbm_put_benchmark_None_iff gbm_call_benchmark_None_iff)
  have a': "map (\<lambda>cell. cell w = (None, w')) (fourier_benchmarks lib) =
     [grid_run (fourier_enter (euro_put_jd lib)) (fourier_point (euro_put_jd lib) (M76_put_value lib)) (w\<lparr>stdout := stdout w @ [header]\<rparr>) w',
      grid_run (fourier_enter (euro_call_jd lib)) (fourier_point (euro_call_jd lib) (M76_call_value lib)) (w\<lparr>stdout := stdout w @ [header]\<rparr>) w',
      grid_run (fourier_enter (euro_put_sv lib)) (fourier_point (euro_put_sv lib) (H93_put_value lib)) (w\<lparr>stdout := stdout w @ [header]\<rparr>) w',
      grid_run (fourier_enter (euro_call_sv lib)) (fourier_point (euro_call_sv lib) (H93_call_value lib)) (w\<lparr>stdout := stdout w @ [header]\<rparr>) w',
      grid_run (fourier_enter (euro_put_svjd lib)) (fourier_point (euro_put_svjd lib) (B96_put_value lib)) (w\<lparr>stdout := stdout w @ [header]\<rparr>) w',
      grid_run (fourier_enter (euro_call_svjd lib)) (fourier_point (euro_call_svjd lib) (B96_call_value lib)) (w\<lparr>stdout := stdout w @ [header]\<rparr>) w']"
    by (simp add: fourier_benchmarks_def valuation_benchmarking_None_iff)
  have r: "map (\<lambda>cell. cell w = (Some e, w')) (gbm_benchmarks lib) =
     [grid_run_raises (gbm_put_enter (euro_put_gbm lib)) (gbm_put_point (euro_put_gbm lib) (put_value lib)) (gbm_put_raises (euro_put_gbm lib) (put_value lib)) (w\<lparr>stdout := stdout w @ [header]\<rparr>) e w',
      grid_run_raises (gbm_call_enter (euro_call_gbm lib)) (gbm_call_point (euro_call_gbm lib) (call_value lib)) (gbm_call_raises (euro_call_gbm lib) (call_value lib)) (w\<lparr>stdout := stdout w @ [header]\<rparr>) e w']"
    by (simp add: gbm_benchmarks_def gbm_put_benchmark_Some_iff gbm_call_benchmark_Some_iff)
  have r': "map (\<lambda>cell. cell w = (Some e, w')) (fourier_benchmarks lib) =
     [grid_run_raises (fourier_enter (euro_put_jd lib)) (fourier_point (euro_put_jd lib) (M76_put_value lib)) (fourier_raises (euro_put_jd lib) (M76_put_value lib)) (w\<lparr>stdout := stdout w @ [header]\<rparr>) e w',
      grid_run_raises (fourier_enter (euro_call_jd lib)) (fourier_point (euro_call_jd lib) (M76_call_value lib)) (fourier_raises (euro_call_jd lib) (M76_call_value lib)) (w\<lparr>stdout := stdout w @ [header]\<rparr>) e w',
      grid_run_raises (fourier_enter (euro_put_sv lib)) (fourier_point (euro_put_sv lib) (H93_put_value lib)) (fourier_raises (euro_put_sv lib) (H93_put_value lib)) (w\<lparr>stdout := stdout w @ [header]\<rparr>) e w',
      grid_run_raises (fourier_enter (euro_call_sv lib)) (fourier_point (euro_call_sv lib) (H93_call_value lib)) (fourier_raises (euro_call_sv lib) (H93_call_value lib)) (w\<lparr>stdout := stdout w @ [header]\<rparr>) e w',
      grid_run_raises (fourier_enter (euro_put_svjd lib)) (fourier_point (euro_put_svjd lib) (B96_put_value lib)) (fourier_raises (euro_put_svjd lib) (B96_put_value lib)) (w\<lparr>stdout := stdout w @ [header]\<rparr>) e w',
      grid_run_raises (fourier_enter (euro_call_svjd lib)) (fourier_point (euro_call_svjd lib) (B96_call_value lib)) (fourier_raises (euro_call_svjd lib) (B96_call_value lib)) (w\<lparr>stdout := stdout w @ [header]\<rparr>) e w']"
    by (simp add: fourier_benchmarks_def valuation_benchmarking_Some_iff)
  have b: "gbm_benchmarks (lib\<lparr>M76_put_value := f1, M76_call_value := f2, H93_put_value := f3,
        H93_call_value := f4, B96_put_value := f5, B96_call_value := f6\<rparr>) = gbm_benchmarks lib"
    by (simp add: gbm_benchmarks_def)
  have c: "fourier_benchmarks (lib\<lparr>put_value := p, call_value := c\<rparr>) = fourier_benchmarks lib"
    by (simp add: fourier_benchmarks_def)
  have d: "snd header ! 3 = Str ''fou''"
    by (simp add: header_def)
  have e: "gbm_put_benchmark vo bv w = (None, w') \<or> gbm_call_benchmark vo bv w = (None, w') \<longrightarrow>
      (\<exists>rows. stdout w' = stdout w @ header # rows \<and>
         list_all2 (\<lambda>(m, k) l. \<exists>ana.
              bv ((bsm_option w)\<lparr>bsm_maturity := m, bsm_strike := k\<rparr>) = Inr ana \<and>
              snd l ! 3 = Float ana)
           (List.product maturities strike_grid) rows)"
  proof
    assume "gbm_put_benchmark vo bv w = (None, w') \<or> gbm_call_benchmark vo bv w = (None, w')"
    then obtain rows where out: "stdout w' = stdout w @ header # rows"
      and rows: "list_all2 (\<lambda>(m, k). gbm_row vo bv (bsm_option w) (me_option w) m k)
                   (List.product maturities strike_grid) rows"
      using gbm_put_benchmark_None(2)[of vo bv w w'] gbm_call_benchmark_None(2)[of vo bv w w']
      by blast
    from rows have "list_all2 (\<lambda>(m, k) l. \<exists>ana.
              bv ((bsm_option w)\<lparr>bsm_maturity := m, bsm_strike := k\<rparr>) = Inr ana \<and>
              snd l ! 3 = Float ana) (List.product maturities strike_grid) rows"
      by (rule list_all2_weaken_prod) (rule gbm_row_reference)
    with out show "\<exists>rows. stdout w' = stdout w @ header # rows \<and>
         list_all2 (\<lambda>(m, k) l. \<exists>ana.
              bv ((bsm_option w)\<lparr>bsm_maturity := m, bsm_strike := k\<rparr>) = Inr ana \<and>
              snd l ! 3 = Float ana)
           (List.product maturities strike_grid) rows" by blast
  qed
  have f: "valuation_benchmarking vo ff w = (None, w') \<longrightarrow>
      (\<exists>rows. stdout w' = stdout w @ header # rows \<and>
         list_all2 (\<lambda>(m, k) l. \<exists>fou.
              ff (add_constant ''strike'' (Number k)
                   (add_constant ''maturity'' (Date m) (me_option w))) = Inr fou \<and>
              snd l ! 3 = Float fou)
           (List.product maturities strike_grid) rows)"
  proof
    assume "valuation_benchmarking vo ff w = (None, w')"
    from valuation_benchmarking_None(3)[OF this]
    obtain rows where out: "stdout w' = stdout w @ header # rows"
      and rows: "list_all2 (\<lambda>(m, k). fourier_row vo ff (me_option w) m k)
                   (List.product maturities strike_grid) rows"
      by blast
    from rows have "list_all2 (\<lambda>(m, k) l. \<exists>fou.
              ff (add_constant ''strike'' (Number k)
                   (add_constant ''maturity'' (Date m) (me_option w))) = Inr fou \<and>
              snd l ! 3 = Float fou) (List.product maturities strike_grid) rows"
      by (rule list_all2_weaken_prod) (rule fourier_row_reference)
    with out show "\<exists>rows. stdout w' = stdout w @ header # rows \<and>
         list_all2 (\<lambda>(m, k) l. \<exists>fou.
              ff (add_constant ''strike'' (Number k)
                   (add_constant ''maturity'' (Date m) (me_option w))) = Inr fou \<and>
              snd l ! 3 = Float fou)
           (List.product maturities strike_grid) rows" by blast
  qed
  from a a' r r' b c d e f show ?thesis by (intro conjI)
qed

theorem reference_column_witness:
  "gbm_put_benchmark counting_object bsm_strike_price initial_world =
     (None, snd (gbm_put_benchmark counting_object bsm_strike_price initial_world)) \<and>
   gbm_call_benchmark counting_object bsm_strike_price initial_world =
     (None, snd (gbm_call_benchmark counting_object bsm_strike_price initial_world)) \<and>
   valuation_benchmarking counting_object strike_price initial_world =
     (None, snd (valuation_benchmarking counting_object strike_price initial_world)) \<and>
   grid_run (gbm_put_enter counting_object) (gbm_put_point counting_object bsm_strike_price)
     (initial_world\<lparr>stdout := stdout initial_world @ [header]\<rparr>)
     (snd (gbm_put_benchmark counting_object bsm_strike_price initial_world)) \<and>
   grid_run (gbm_call_enter counting_object) (gbm_call_point counting_object bsm_strike_price)
     (initial_world\<lparr>stdout := stdout initial_world @ [header]\<rparr>)
     (snd (gbm_call_benchmark counting_object bsm_strike_price initial_world)) \<and>
   grid_run (fourier_enter counting_object) (fourier_point counting_object strike_price)
     (initial_world\<lparr>stdout := stdout initial_world @ [header]\<rparr>)
     (snd (valuation_benchmarking counting_object strike_price initial_world)) \<and>
   (\<exists>rows. stdout (snd (gbm_put_benchmark counting_object bsm_strike_price initial_world)) =
             stdout initial_world @ header # rows \<and>
      list_all2 (\<lambda>(m, k) l. \<exists>ana.
              bsm_strike_price ((bsm_option initial_world)\<lparr>bsm_maturity := m, bsm_strike := k\<rparr>)
                = Inr ana \<and> snd l ! 3 = Float ana)
           (List.product maturities strike_grid) rows)"
proof -
  let ?X = "valuation_benchmarking counting_object strike_price initial_world"
  let ?Y = "gbm_put_benchmark counting_object bsm_strike_price initial_world"
  let ?Z = "gbm_call_benchmark counting_object bsm_strike_price initial_world"
  have x: "?X = (None, snd ?X)"
    using counting_run_None[of initial_world] by (simp add: prod_eq_iff)
  have y: "?Y = (None, snd ?Y)"
    using counting_gbm_put_None[of initial_world] by (simp add: prod_eq_iff)
  have z: "?Z = (None, snd ?Z)"
    using counting_gbm_call_None[of initial_world] by (simp add: prod_eq_iff)
  from reference_column[where lib = small_dx and w = initial_world and w' = "snd ?Y",
      THEN conjunct1] y
  have 1: "grid_run (gbm_put_enter counting_object) (gbm_put_point counting_object bsm_strike_price)
     (initial_world\<lparr>stdout := stdout initial_world @ [header]\<rparr>) (snd ?Y)"
    by (simp add: gbm_benchmarks_def small_dx_def)
  from reference_column[where lib = small_dx and w = initial_world and w' = "snd ?Z",
      THEN conjunct1] z
  have 2: "grid_run (gbm_call_enter counting_object) (gbm_call_point counting_object bsm_strike_price)
     (initial_world\<lparr>stdout := stdout initial_world @ [header]\<rparr>) (snd ?Z)"
    by (simp add: gbm_benchmarks_def small_dx_def)
  from reference_column[where lib = small_dx and w = initial_world and w' = "snd ?X",
      THEN conjunct2, THEN conjunct1] x
  have 3: "grid_run (fourier_enter counting_object) (fourier_point counting_object strike_price)
     (initial_world\<lparr>stdout := stdout initial_world @ [header]\<rparr>) (snd ?X)"
    by (simp add: fourier_benchmarks_def small_dx_def)
  from reference_column[where vo = counting_object and bv = bsm_strike_price
      and w = initial_world and w' = "snd ?Y", THEN conjunct2, THEN conjunct2, THEN conjunct2,
      THEN conjunct2, THEN conjunct2, THEN conjunct2, THEN conjunct2, THEN conjunct1] y
  have 4: "\<exists>rows. stdout (snd ?Y) = stdout initial_world @ header # rows \<and>
      list_all2 (\<lambda>(m, k) l. \<exists>ana.
              bsm_strike_price ((bsm_option initial_world)\<lparr>bsm_maturity := m, bsm_strike := k\<rparr>)
                = Inr ana \<and> snd l ! 3 = Float ana)
           (List.product maturities strike_grid) rows"
    by blast
  from y z x 1 2 3 4 show ?thesis by (intro conjI)
qed

text \<open>
  Claim C10 (the year fraction). In every row printed by one of the three benchmarks the
  first column is the number of days from the pricing date of \<^verbatim>\<open>me_option\<close> to the maturity
  of the row, divided by 365. The pricing date of the notebook's environment is
  2015-01-01, so the three maturities are 89, 150 and 211 days away and the first one gives
  89/365, which is 0.244 to three decimals; counted from the start date 2015-03-01 it would
  be 30 days.
\<close>

theorem year_fraction_of_rows:
  assumes "valuation_benchmarking vo ff w = (r, w') \<or>
           gbm_put_benchmark vo bv w = (r, w') \<or>
           gbm_call_benchmark vo bv w = (r, w')"
  shows "(\<exists>n rows. n \<le> 15 \<and> (r = None \<longleftrightarrow> n = 15) \<and>
            stdout w' = stdout w @ header # rows \<and>
            map (\<lambda>l. hd (snd l)) rows =
              map (\<lambda>(m, k). Float (real_of_int (days_between m (pricing_date (me_option w))) / 365))
                (take n (List.product maturities strike_grid))) \<and>
         pricing_date me_option_init = Datetime 2015 1 1 \<and>
         map (\<lambda>m. days_between m (Datetime 2015 1 1)) maturities = [89, 150, 211] \<and>
         hd maturities = Datetime 2015 3 31 \<and>
         \<bar>89 / 365 - 0.244 :: real\<bar> < 0.0005 \<and>
         days_between (hd maturities) start_date = 30"
proof -
  from assms obtain fmt where
    "valuation_benchmarking vo ff w = (r, w') \<and> fmt = row_format \<or>
     gbm_put_benchmark vo bv w = (r, w') \<and> fmt = row_format_gbm \<or>
     gbm_call_benchmark vo bv w = (r, w') \<and> fmt = row_format_gbm" by blast
  from benchmark_rows_shape[OF this] obtain n rows where
    *: "n \<le> 15" "r = None \<longleftrightarrow> n = 15" "stdout w' = stdout w @ header # rows"
    "list_all2 (\<lambda>(m, k) l. \<exists>mcs fou.
         l = (fmt, [Float (real_of_int (days_between m (pricing_date (me_option w))) / 365),
                    Float k, Float mcs, Float fou, Float (mcs - fou),
                    divide_times (mcs - fou) fou 100]))
       (take n (List.product maturities strike_grid)) rows" by blast
  have "map (\<lambda>l. hd (snd l)) rows =
        map (\<lambda>(m, k). Float (real_of_int (days_between m (pricing_date (me_option w))) / 365))
          (take n (List.product maturities strike_grid))"
    using *(4) by (rule rows_first_column)
  with *(1,2,3) have rows: "\<exists>n rows. n \<le> 15 \<and> (r = None \<longleftrightarrow> n = 15) \<and>
            stdout w' = stdout w @ header # rows \<and>
            map (\<lambda>l. hd (snd l)) rows =
              map (\<lambda>(m, k). Float (real_of_int (days_between m (pricing_date (me_option w))) / 365))
                (take n (List.product maturities strike_grid))" by blast
  have pd: "pricing_date me_option_init = Datetime 2015 1 1"
    by (simp add: me_option_init_def add_environment_def new_market_environment_def)
  have days: "map (\<lambda>m. days_between m (Datetime 2015 1 1)) maturities = [89, 150, 211]"
    by (simp add: maturities_eq days_between_def toordinal_def days_before_year_def
        days_before_month_def DAYS_BEFORE_MONTH_def is_leap_def)
  have hd: "hd maturities = Datetime 2015 3 31" by (simp add: maturities_eq)
  have approx: "\<bar>89 / 365 - 0.244 :: real\<bar> < 0.0005" by simp
  have anchor: "days_between (hd maturities) start_date = 30"
    by (simp add: maturities_eq start_date_def days_between_def toordinal_def
        days_before_year_def days_before_month_def DAYS_BEFORE_MONTH_def is_leap_def)
  from rows pd days hd approx anchor show ?thesis by (intro conjI)
qed

theorem year_fraction_of_rows_witness:
  "gbm_put_benchmark counting_object bsm_strike_price initial_world =
     (None, snd (gbm_put_benchmark counting_object bsm_strike_price initial_world)) \<and>
   (\<exists>rows. stdout (snd (gbm_put_benchmark counting_object bsm_strike_price initial_world)) =
             stdout initial_world @ header # rows \<and>
           map (\<lambda>l. hd (snd l)) rows =
             map (\<lambda>(m, k). Float (real_of_int (days_between m (pricing_date (me_option initial_world))) / 365))
               (List.product maturities strike_grid))"
proof -
  let ?X = "gbm_put_benchmark counting_object bsm_strike_price initial_world"
  have h: "?X = (None, snd ?X)"
    using counting_gbm_put_None[of initial_world] by (simp add: prod_eq_iff)
  from year_fraction_of_rows[OF disjI2, OF disjI1, OF h]
  obtain n rows where "n = 15" "stdout (snd ?X) = stdout initial_world @ header # rows"
    "map (\<lambda>l. hd (snd l)) rows =
       map (\<lambda>(m, k). Float (real_of_int (days_between m (pricing_date (me_option initial_world))) / 365))
         (take n (List.product maturities strike_grid))"
    by auto
  with grid_length h show ?thesis by auto
qed

end
